theory Spec2Isabelle
  imports Complex_Main "HOL-Library.AList"
begin

section \<open>JavaScript values used by the generators\<close>

text \<open>
  A JavaScript number is modelled by an exact rational, or \<open>NaN\<close> (what \<open>parseInt\<close>
  returns when it finds no digit, and what arithmetic on \<open>NaN\<close> returns). Rounding of
  doubles and the infinities are outside the model.
\<close>

datatype number = Num rat | NaN

text \<open>\<open>a >= b\<close> on numbers: every comparison with \<open>NaN\<close> is false.\<close>

fun num_ge :: "number \<Rightarrow> number \<Rightarrow> bool" where
  "num_ge (Num a) (Num b) = (b \<le> a)"
| "num_ge _ _ = False"

text \<open>\<open>a < b\<close> on numbers.\<close>

fun num_lt :: "number \<Rightarrow> number \<Rightarrow> bool" where
  "num_lt (Num a) (Num b) = (a < b)"
| "num_lt _ _ = False"

fun num_add :: "number \<Rightarrow> number \<Rightarrow> number" where
  "num_add (Num a) (Num b) = Num (a + b)"
| "num_add _ _ = NaN"

fun num_mul :: "number \<Rightarrow> number \<Rightarrow> number" where
  "num_mul (Num a) (Num b) = Num (a * b)"
| "num_mul _ _ = NaN"

text \<open>\<open>Math.floor\<close>.\<close>

fun num_floor :: "number \<Rightarrow> number" where
  "num_floor (Num a) = Num (of_int \<lfloor>a\<rfloor>)"
| "num_floor NaN = NaN"


text \<open>
  Values of the fetched documents and of the arguments that the generators only pass on
  (an encounter's fields, a magic item, a plot hook, \<open>level\<close>).
\<close>

datatype jsval =
    Undefined
  | Null
  | Bool bool
  | Number number
  | Str string
  | Arr "jsval list"
  | Obj "(string \<times> jsval) list"

text \<open>
  \<open>xs[i]\<close> on an array: \<open>undefined\<close> (here \<open>None\<close>) when \<open>i\<close> is not an index of
  \<open>xs\<close>.
\<close>

definition elem_at :: "'a list \<Rightarrow> int \<Rightarrow> 'a option" where
  "elem_at xs i = (if 0 \<le> i \<and> i < int (length xs) then Some (xs ! nat i) else None)"

definition or_undefined :: "jsval option \<Rightarrow> jsval" where
  "or_undefined v = (case v of None \<Rightarrow> Undefined | Some x \<Rightarrow> x)"

text \<open>A string inside a template literal; \<open>undefined\<close> prints as its name.\<close>

definition to_string :: "string option \<Rightarrow> string" where
  "to_string v = (case v of None \<Rightarrow> ''undefined'' | Some s \<Rightarrow> s)"

text \<open>A parameter with a default value: the default stands in for \<open>undefined\<close>.\<close>

definition default_arg :: "'a \<Rightarrow> 'a option \<Rightarrow> 'a" where
  "default_arg d arg = (case arg of None \<Rightarrow> d | Some v \<Rightarrow> v)"

text \<open>\<open>m?.[k]\<close>: a lookup in an object that may itself be \<open>undefined\<close>.\<close>

definition opt_chain :: "('k \<rightharpoonup> 'v) option \<Rightarrow> 'k \<Rightarrow> 'v option" where
  "opt_chain m k = (case m of None \<Rightarrow> None | Some f \<Rightarrow> f k)"

text \<open>\<open>xs || []\<close> for an array that may be \<open>undefined\<close> (an array, even empty, is truthy).\<close>

definition or_empty :: "'a list option \<Rightarrow> 'a list" where
  "or_empty xs = (case xs of None \<Rightarrow> [] | Some ys \<Rightarrow> ys)"

text \<open>
  An object literal is an association list in insertion order. \<open>{a, b, ...src}\<close>
  defines the properties of \<open>src\<close> one after the other on the object built so far: a key
  already there keeps its place and takes the new value. Spreading \<open>undefined\<close> adds
  nothing.
\<close>

definition spread :: "(string \<times> jsval) list \<Rightarrow> (string \<times> jsval) list option \<Rightarrow> (string \<times> jsval) list" where
  "spread obj src =
     (case src of None \<Rightarrow> obj
      | Some props \<Rightarrow> fold (\<lambda>(k, v). AList.update k v) props obj)"

section \<open>The random source\<close>

text \<open>
  \<open>Math.random()\<close> is the only source of randomness. A call of a generator sees the
  sequence \<open>rnd 0, rnd 1, ...\<close> of the values it returns; the generators thread the
  number of values consumed so far. The contract of \<open>Math.random\<close> is \<open>unit_draws\<close>.
\<close>

type_synonym random = "nat \<Rightarrow> rat"

definition unit_draws :: "random \<Rightarrow> bool" where
  "unit_draws rnd = (\<forall>i. 0 \<le> rnd i \<and> rnd i < 1)"

text \<open>\<open>Math.floor(Math.random() * n)\<close> for the value \<open>u\<close> that \<open>Math.random()\<close> returned.\<close>

definition random_index :: "rat \<Rightarrow> nat \<Rightarrow> int" where
  "random_index u n = \<lfloor>u * of_nat n\<rfloor>"

text \<open>\<open>xs[Math.floor(Math.random() * xs.length)]\<close>.\<close>

definition pick :: "'a list \<Rightarrow> rat \<Rightarrow> 'a option" where
  "pick xs u = elem_at xs (random_index u (length xs))"

text \<open>
  \<open>for (let i = i0; i < bound; i++) body\<close>, the body a function of the counter and the
  state it updates.
\<close>

function for_loop :: "nat \<Rightarrow> number \<Rightarrow> (nat \<Rightarrow> 's \<Rightarrow> 's) \<Rightarrow> 's \<Rightarrow> 's" where
  "for_loop i bound body s =
     (if num_lt (Num (of_nat i)) bound then for_loop (Suc i) bound body (body i s) else s)"
  by pat_completeness auto
termination
proof (relation "measure (\<lambda>(i, bound, body, s). case bound of Num q \<Rightarrow> nat \<lceil>q\<rceil> - i | NaN \<Rightarrow> 0)")
  show "wf (measure (\<lambda>(i, bound, body, s). case bound of Num q \<Rightarrow> nat \<lceil>q\<rceil> - i | NaN \<Rightarrow> 0))"
    by simp
next
  fix i :: nat and bound :: number and body :: "nat \<Rightarrow> 's \<Rightarrow> 's" and s :: 's
  assume lt: "num_lt (Num (of_nat i)) bound"
  then obtain q where q: "bound = Num q" and iq: "of_nat i < q"
    by (cases bound) auto
  from iq have "int i < \<lceil>q\<rceil>"
    by (simp add: less_ceiling_iff)
  then have "nat \<lceil>q\<rceil> - Suc i < nat \<lceil>q\<rceil> - i"
    by linarith
  with q show "((Suc i, bound, body, body i s), (i, bound, body, s))
      \<in> measure (\<lambda>(i, bound, body, s). case bound of Num q \<Rightarrow> nat \<lceil>q\<rceil> - i | NaN \<Rightarrow> 0)"
    by simp
qed

declare for_loop.simps [simp del]

section \<open>The data fetcher\<close>

text \<open>
  What \<open>fetch\<close> and \<open>response.json()\<close> can do: the request is rejected, or a response
  arrives with its \<open>ok\<close> flag, its status text and a body that parses to a document or
  does not (\<open>None\<close>).
\<close>

datatype 'd fetched = Rejected | Response bool string "'d option"

text \<open>What a generator throws.\<close>

datatype failure = NetworkError | FetchError string | SyntaxError | TypeError

text \<open>
  Lines 9 to 15:
  \<^verbatim>\<open>
  async function fetchData(filename) {
    const response = await fetch(`https://ttrpg-mcp.tedt.org/data/${filename}`);
    if (!response.ok) {
      throw new Error(`Failed to fetch ${filename}: ${response.statusText}`);
    }
    return response.json();
  }
  \<close>
\<close>

definition fetchData :: "string \<Rightarrow> 'd fetched \<Rightarrow> failure + 'd" where
  "fetchData filename r =
     (case r of
        Rejected \<Rightarrow> Inl NetworkError
      | Response ok statusText body \<Rightarrow>
          if \<not> ok then Inl (FetchError (''Failed to fetch '' @ filename @ '': '' @ statusText))
          else (case body of None \<Rightarrow> Inl SyntaxError | Some d \<Rightarrow> Inr d))"

section \<open>The generators\<close>

text \<open>
  A generator returns an object with the single field \<open>error\<close> (\<open>ErrorPayload\<close>) or the
  result object of its tool. Beside its outcome (\<open>Inl\<close>: what it throws) the model
  returns the number of \<open>Math.random()\<close> calls it made.

  The fetched documents have the shapes the generators navigate; a key that a lookup
  does not find is \<open>None\<close>. Only an object's own keys are modelled.
\<close>

datatype payload =
    ErrorPayload string
  | EncounterResult "(string \<times> jsval) list"
  | NameResult "string option" string string
  | LocationResult string string
  | PersonalityResult "string option list"
  | TreasureResult number string "(string \<times> number) list" "jsval list"
  | WeatherResult string "string option" "string option"
  | PlotHookResult string jsval jsval

type_synonym outcome = "(failure + payload) \<times> nat"

subsection \<open>generate_encounter\<close>

text \<open>
  \<open>data.encounters\<close>: environment, then difficulty, then a list of encounter objects.
  Lines 19 to 34:
  \<^verbatim>\<open>
  async generate_encounter({ level, environment, difficulty = 'medium' }) {
    const data = await fetchData('encounters.json');
    const encounters = data.encounters[environment]?.[difficulty] || [];
    if (encounters.length === 0) {
      return { error: `No encounters found for ${environment} / ${difficulty}` };
    }
    const encounter = encounters[Math.floor(Math.random() * encounters.length)];
    return { environment, difficulty, partyLevel: level, ...encounter };
  }
  \<close>
\<close>

type_synonym encounters_doc = "string \<rightharpoonup> (string \<rightharpoonup> (string \<times> jsval) list list)"

definition generate_encounter ::
  "encounters_doc fetched \<Rightarrow> jsval \<Rightarrow> string \<Rightarrow> string option \<Rightarrow> random \<Rightarrow> outcome" where
  "generate_encounter resp level environment difficulty_arg rnd =
     (case fetchData ''encounters.json'' resp of
        Inl e \<Rightarrow> (Inl e, 0)
      | Inr data \<Rightarrow>
          let difficulty = default_arg ''medium'' difficulty_arg;
              encounters = or_empty (opt_chain (data environment) difficulty)
          in if length encounters = 0
             then (Inr (ErrorPayload
                     (''No encounters found for '' @ environment @ '' / '' @ difficulty)), 0)
             else
               let encounter = pick encounters (rnd 0)
               in (Inr (EncounterResult
                     (spread [(''environment'', Str environment),
                              (''difficulty'', Str difficulty),
                              (''partyLevel'', level)] encounter)), 1))"

subsection \<open>generate_npc_name\<close>

text \<open>
  Lines 36 to 46:
  \<^verbatim>\<open>
  async generate_npc_name({ race, gender }) {
    const data = await fetchData('names.json');
    const names = data.names[race]?.[gender] || [];
    if (names.length === 0) {
      return { error: `No names found for ${race} / ${gender}` };
    }
    const name = names[Math.floor(Math.random() * names.length)];
    return { name, race, gender };
  }
  \<close>
\<close>

type_synonym names_doc = "string \<rightharpoonup> (string \<rightharpoonup> string list)"

definition generate_npc_name :: "names_doc fetched \<Rightarrow> string \<Rightarrow> string \<Rightarrow> random \<Rightarrow> outcome" where
  "generate_npc_name resp race gender rnd =
     (case fetchData ''names.json'' resp of
        Inl e \<Rightarrow> (Inl e, 0)
      | Inr data \<Rightarrow>
          let names = or_empty (opt_chain (data race) gender)
          in if length names = 0
             then (Inr (ErrorPayload (''No names found for '' @ race @ '' / '' @ gender)), 0)
             else (Inr (NameResult (pick names (rnd 0)) race gender), 1))"

subsection \<open>generate_location_name\<close>

text \<open>
  Lines 48 to 63:
  \<^verbatim>\<open>
  async generate_location_name({ type }) {
    const data = await fetchData('locations.json');
    const location = data.locations[type];
    if (!location) {
      return { error: `No location type found: ${type}` };
    }
    const prefix = location.prefixes[Math.floor(Math.random() * location.prefixes.length)];
    const suffix = location.suffixes[Math.floor(Math.random() * location.suffixes.length)];
    return { name: `${prefix} ${suffix}`, type };
  }
  \<close>
\<close>

record location =
  prefixes :: "string list"
  suffixes :: "string list"

type_synonym locations_doc = "string \<rightharpoonup> location"

definition generate_location_name :: "locations_doc fetched \<Rightarrow> string \<Rightarrow> random \<Rightarrow> outcome" where
  "generate_location_name resp ty rnd =
     (case fetchData ''locations.json'' resp of
        Inl e \<Rightarrow> (Inl e, 0)
      | Inr data \<Rightarrow>
          (case data ty of
             None \<Rightarrow> (Inr (ErrorPayload (''No location type found: '' @ ty)), 0)
           | Some location \<Rightarrow>
               let prefix = pick (prefixes location) (rnd 0);
                   suffix = pick (suffixes location) (rnd 1)
               in (Inr (LocationResult (to_string prefix @ '' '' @ to_string suffix) ty), 2)))"

subsection \<open>generate_personality\<close>

text \<open>
  Lines 65 to 84:
  \<^verbatim>\<open>
  async generate_personality({ count = 4 }) {
    const data = await fetchData('traits.json');
    const allTraits = [...data.traits, ...data.ideals, ...data.bonds, ...data.flaws,
                       ...data.quirks];
    const selected = [];
    for (let i = 0; i < Math.min(count, allTraits.length); i++) {
      const trait = allTraits[Math.floor(Math.random() * allTraits.length)];
      if (!selected.includes(trait)) {
        selected.push(trait);
      }
    }
    return { traits: selected };
  }
  \<close>
\<close>

record traits_doc =
  traits :: "string list"
  ideals :: "string list"
  bonds :: "string list"
  flaws :: "string list"
  quirks :: "string list"

text \<open>\<open>Math.min\<close> of two numbers: \<open>NaN\<close> when either is.\<close>

fun num_min :: "number \<Rightarrow> number \<Rightarrow> number" where
  "num_min (Num a) (Num b) = Num (min a b)"
| "num_min _ _ = NaN"

text \<open>
  One run of the loop body, on the pair of \<open>selected\<close> and the draws consumed; \<open>pool\<close> is
  the array \<open>allTraits\<close>.
\<close>

definition select_trait ::
  "random \<Rightarrow> string list \<Rightarrow> nat \<Rightarrow> string option list \<times> nat \<Rightarrow> string option list \<times> nat" where
  "select_trait rnd pool i st =
     (case st of (selected, p) \<Rightarrow>
        let trait = pick pool (rnd p)
        in (if trait \<notin> set selected then selected @ [trait] else selected, Suc p))"

definition allTraits :: "traits_doc \<Rightarrow> string list" where
  "allTraits data = traits data @ ideals data @ bonds data @ flaws data @ quirks data"

definition generate_personality :: "traits_doc fetched \<Rightarrow> number option \<Rightarrow> random \<Rightarrow> outcome" where
  "generate_personality resp count_arg rnd =
     (case fetchData ''traits.json'' resp of
        Inl e \<Rightarrow> (Inl e, 0)
      | Inr data \<Rightarrow>
          let count = default_arg (Num 4) count_arg;
              (selected, p) =
                 for_loop 0 (num_min count (Num (of_nat (length (allTraits data)))))
                   (select_trait rnd (allTraits data)) ([], 0)
          in (Inr (PersonalityResult selected), p))"

subsection \<open>generate_treasure\<close>

text \<open>
  \<open>String.prototype.split\<close> with a one-character separator: the pieces between the
  occurrences of the separator (one piece, the string itself, when there is none).
\<close>

fun split_on :: "char \<Rightarrow> string \<Rightarrow> string list" where
  "split_on c [] = [[]]"
| "split_on c (x # xs) =
     (if x = c then [] # split_on c xs
      else (case split_on c xs of
              [] \<Rightarrow> [[x]]
            | w # ws \<Rightarrow> (x # w) # ws))"

text \<open>
  \<open>parseInt(s)\<close> with no radix: leading white space is skipped, then an optional sign,
  then an optional \<open>0x\<close> or \<open>0X\<close> (which makes the radix 16), then the longest run of
  digits of the radix; \<open>NaN\<close> when that run is empty. White space is the ASCII part of
  the language's white space; the value of a run of digits is exact.
\<close>

definition is_ws :: "char \<Rightarrow> bool" where
  "is_ws c = (c \<in> set [CHR 0x09, CHR 0x0A, CHR 0x0B, CHR 0x0C, CHR 0x0D, CHR 0x20])"

definition digit_value :: "char \<Rightarrow> nat option" where
  "digit_value c =
     (let n = (of_char c :: nat)
      in if 48 \<le> n \<and> n \<le> 57 then Some (n - 48)
         else if 97 \<le> n \<and> n \<le> 122 then Some (n - 87)
         else if 65 \<le> n \<and> n \<le> 90 then Some (n - 55)
         else None)"

definition is_digit :: "nat \<Rightarrow> char \<Rightarrow> bool" where
  "is_digit radix c = (case digit_value c of None \<Rightarrow> False | Some d \<Rightarrow> d < radix)"

definition digits_value :: "nat \<Rightarrow> string \<Rightarrow> nat" where
  "digits_value radix ds =
     foldl (\<lambda>acc c. acc * radix + (case digit_value c of None \<Rightarrow> 0 | Some d \<Rightarrow> d)) 0 ds"

definition parseInt :: "string option \<Rightarrow> number" where
  "parseInt arg =
     (let s1 = dropWhile is_ws (to_string arg);
          negative = (take 1 s1 = ''-'');
          s2 = (if take 1 s1 = ''-'' \<or> take 1 s1 = ''+'' then drop 1 s1 else s1);
          hex = (take 2 s2 = ''0x'' \<or> take 2 s2 = ''0X'');
          radix = (if hex then 16 else 10);
          s3 = (if hex then drop 2 s2 else s2);
          ds = takeWhile (is_digit radix) s3
      in if ds = [] then NaN
         else Num (of_int ((if negative then - 1 else 1) * int (digits_value radix ds))))"

text \<open>
  \<open>data.treasure\<close>: under a treasure type, the CR ranges, each an object whose entries
  (in the order \<open>Object.entries\<close> lists them: the order of the document for keys that
  are names) are coin kinds with a dice string and a multiplier; under the key
  \<open>items\<close>, the two pools of magic items. An entry that is not an object with a string
  \<open>dice\<close> is \<open>Other\<close>.
\<close>

datatype bucket_field = Coin string rat | Other jsval

record item_pools =
  magic_medium :: "jsval list option"
  magic_major :: "jsval list option"

record treasure_doc =
  by_type :: "string \<rightharpoonup> (string \<rightharpoonup> (string \<times> bucket_field) list)"
  items :: "item_pools option"

text \<open>
  \<open>data.treasure[type]\<close>: the key \<open>items\<close> finds the pools, an object with no CR range
  among its keys.
\<close>

definition treasure_type :: "treasure_doc \<Rightarrow> string \<Rightarrow> (string \<rightharpoonup> (string \<times> bucket_field) list) option" where
  "treasure_type data ty =
     (if ty = ''items'' then map_option (\<lambda>_. Map.empty) (items data) else by_type data ty)"

text \<open>
  Lines 90 to 93 of index.js:
  \<^verbatim>\<open>
    let crRange = 'cr0-4';
    if (cr >= 17) crRange = 'cr17+';
    else if (cr >= 11) crRange = 'cr11-16';
    else if (cr >= 5) crRange = 'cr5-10';
  \<close>
\<close>

definition crRange :: "number \<Rightarrow> string" where
  "crRange cr =
     (if num_ge cr (Num 17) then ''cr17+''
      else if num_ge cr (Num 11) then ''cr11-16''
      else if num_ge cr (Num 5) then ''cr5-10''
      else ''cr0-4'')"



text \<open>
  Lines 104 to 111, the value of one coin kind:
  \<^verbatim>\<open>
          const rolls = diceData.dice.split('d');
          const numDice = parseInt(rolls[0]);
          const diceSize = parseInt(rolls[1]);
          let total = 0;
          for (let i = 0; i < numDice; i++) {
            total += Math.floor(Math.random() * diceSize) + 1;
          }
          coins[coinType] = total * diceData.multiplier;
  \<close>
  \<open>roll_die\<close> is the body of the loop on the pair of \<open>total\<close> (here \<open>tot\<close>) and the
  draws consumed.
\<close>

definition roll_die :: "random \<Rightarrow> number \<Rightarrow> nat \<Rightarrow> number \<times> nat \<Rightarrow> number \<times> nat" where
  "roll_die rnd diceSize i st =
     (case st of (tot, p) \<Rightarrow>
        (num_add tot (num_add (num_floor (num_mul (Num (rnd p)) diceSize)) (Num 1)), Suc p))"

definition roll_coin :: "random \<Rightarrow> nat \<Rightarrow> string \<Rightarrow> rat \<Rightarrow> number \<times> nat" where
  "roll_coin rnd p dice multiplier =
     (let rolls = split_on CHR ''d'' dice;
          numDice = parseInt (elem_at rolls 0);
          diceSize = parseInt (elem_at rolls 1);
          (tot, p') = for_loop 0 numDice (roll_die rnd diceSize) (Num 0, p)
      in (num_mul tot (Num multiplier), p'))"

text \<open>
  Lines 101 to 113, the loop over the entries of the CR range:
  \<^verbatim>\<open>
      for (const [coinType, diceData] of Object.entries(treasureData)) {
        if (coinType !== 'items') {
          ...
          coins[coinType] = total * diceData.multiplier;
        }
      }
  \<close>
  Reading \<open>dice\<close> of an entry that has none, and calling \<open>split\<close> on one that is no
  string, throws.
\<close>

fun roll_coins ::
  "random \<Rightarrow> (string \<times> bucket_field) list \<Rightarrow> (string \<times> number) list \<times> nat
     \<Rightarrow> (failure + (string \<times> number) list) \<times> nat" where
  "roll_coins rnd [] (coins, p) = (Inr coins, p)"
| "roll_coins rnd ((coinType, diceData) # rest) (coins, p) =
     (if coinType \<noteq> ''items'' then
        (case diceData of
           Other v \<Rightarrow> (Inl TypeError, p)
         | Coin dice multiplier \<Rightarrow>
             (case roll_coin rnd p dice multiplier of
                (amount, p') \<Rightarrow> roll_coins rnd rest (AList.update coinType amount coins, p')))
      else roll_coins rnd rest (coins, p))"

text \<open>
  Lines 117 to 124:
  \<^verbatim>\<open>
    const treasureItems = [];
    if (type === 'hoard' && cr >= 5) {
      const itemPool = cr >= 11 ? items.magic_major : items.magic_medium;
      const numItems = Math.floor(Math.random() * 3) + 1;
      for (let i = 0; i < numItems; i++) {
        treasureItems.push(itemPool[Math.floor(Math.random() * itemPool.length)]);
      }
    }
  \<close>
  Reading a pool of \<open>items\<close> throws when \<open>items\<close> is \<open>undefined\<close>; reading the length of
  the pool throws when the pool is, in the first run of the loop body, after that run's
  call of \<open>Math.random()\<close>.
\<close>

definition push_item :: "random \<Rightarrow> jsval list \<Rightarrow> nat \<Rightarrow> jsval list \<times> nat \<Rightarrow> jsval list \<times> nat" where
  "push_item rnd itemPool i st =
     (case st of (treasureItems, p) \<Rightarrow>
        (treasureItems @ [or_undefined (pick itemPool (rnd p))], Suc p))"

definition treasure_items ::
  "random \<Rightarrow> nat \<Rightarrow> item_pools option \<Rightarrow> number \<Rightarrow> string \<Rightarrow> (failure + jsval list) \<times> nat" where
  "treasure_items rnd p its cr ty =
     (if ty = ''hoard'' \<and> num_ge cr (Num 5) then
        (case its of
           None \<Rightarrow> (Inl TypeError, p)
         | Some pools \<Rightarrow>
             let itemPool = (if num_ge cr (Num 11) then magic_major pools else magic_medium pools);
                 numItems = num_add (num_floor (num_mul (Num (rnd p)) (Num 3))) (Num 1)
             in (case itemPool of
                   None \<Rightarrow>
                     if num_lt (Num 0) numItems then (Inl TypeError, Suc (Suc p))
                     else (Inr [], Suc p)
                 | Some pool \<Rightarrow>
                     (case for_loop 0 numItems (push_item rnd pool) ([], Suc p) of
                        (treasureItems, p') \<Rightarrow> (Inr treasureItems, p'))))
      else (Inr [], p))"

text \<open>
  Lines 86 to 132:
  \<^verbatim>\<open>
  async generate_treasure({ cr, type = 'individual' }) {
    const data = await fetchData('treasure.json');
    ...
    const treasureData = data.treasure[type][crRange];
    const items = data.treasure.items;
    const coins = {};
    if (treasureData) { ... }
    ...
    return { challengeRating: cr, type, coins, items: treasureItems };
  }
  \<close>
  Reading the CR range of a treasure type the document does not have throws.
\<close>

definition generate_treasure :: "treasure_doc fetched \<Rightarrow> number \<Rightarrow> string option \<Rightarrow> random \<Rightarrow> outcome" where
  "generate_treasure resp cr type_arg rnd =
     (case fetchData ''treasure.json'' resp of
        Inl e \<Rightarrow> (Inl e, 0)
      | Inr data \<Rightarrow>
          let ty = default_arg ''individual'' type_arg
          in (case treasure_type data ty of
                None \<Rightarrow> (Inl TypeError, 0)
              | Some ranges \<Rightarrow>
                  (case roll_coins rnd (or_empty (ranges (crRange cr))) ([], 0) of
                     (Inl e, p) \<Rightarrow> (Inl e, p)
                   | (Inr coins, p) \<Rightarrow>
                       (case treasure_items rnd p (items data) cr ty of
                          (Inl e, p') \<Rightarrow> (Inl e, p')
                        | (Inr treasureItems, p') \<Rightarrow>
                            (Inr (TreasureResult cr ty coins treasureItems), p')))))"

subsection \<open>generate_weather\<close>

text \<open>
  Lines 134 to 146:
  \<^verbatim>\<open>
  async generate_weather({ climate, season }) {
    const data = await fetchData('weather.json');
    const weatherOptions = season && data.weather[climate]?.[season]
      ? data.weather[climate][season]
      : data.weather[climate]?.any || [];
    if (weatherOptions.length === 0) {
      return { error: `No weather found for ${climate} / ${season}` };
    }
    const description = weatherOptions[Math.floor(Math.random() * weatherOptions.length)];
    return { climate, season, description };
  }
  \<close>
  A season is truthy when it is given and is not the empty string; an array is truthy
  when it is there.
\<close>

type_synonym weather_doc = "string \<rightharpoonup> (string \<rightharpoonup> string list)"

definition weatherOptions :: "weather_doc \<Rightarrow> string \<Rightarrow> string option \<Rightarrow> string list" where
  "weatherOptions data climate season =
     (let fallback = or_empty (opt_chain (data climate) ''any'')
      in (case season of
            None \<Rightarrow> fallback
          | Some s \<Rightarrow>
              if s \<noteq> [] then
                (case opt_chain (data climate) s of
                   Some options \<Rightarrow> options
                 | None \<Rightarrow> fallback)
              else fallback))"

definition generate_weather :: "weather_doc fetched \<Rightarrow> string \<Rightarrow> string option \<Rightarrow> random \<Rightarrow> outcome" where
  "generate_weather resp climate season rnd =
     (case fetchData ''weather.json'' resp of
        Inl e \<Rightarrow> (Inl e, 0)
      | Inr data \<Rightarrow>
          let options = weatherOptions data climate season
          in if length options = 0
             then (Inr (ErrorPayload
                     (''No weather found for '' @ climate @ '' / '' @ to_string season)), 0)
             else (Inr (WeatherResult climate season (pick options (rnd 0))), 1))"

subsection \<open>generate_plot_hook\<close>

text \<open>
  Lines 148 to 162:
  \<^verbatim>\<open>
  async generate_plot_hook({ theme, level }) {
    const data = await fetchData('plot_hooks.json');
    const hooks = data.plot_hooks[theme] || [];
    if (hooks.length === 0) {
      return { error: `No plot hooks found for theme: ${theme}` };
    }
    const hook = hooks[Math.floor(Math.random() * hooks.length)];
    return { theme, suggestedLevel: level, hook };
  }
  \<close>
\<close>

type_synonym plot_hooks_doc = "string \<rightharpoonup> jsval list"

definition generate_plot_hook :: "plot_hooks_doc fetched \<Rightarrow> string \<Rightarrow> jsval \<Rightarrow> random \<Rightarrow> outcome" where
  "generate_plot_hook resp theme level rnd =
     (case fetchData ''plot_hooks.json'' resp of
        Inl e \<Rightarrow> (Inl e, 0)
      | Inr data \<Rightarrow>
          let hooks = or_empty (data theme)
          in if length hooks = 0
             then (Inr (ErrorPayload (''No plot hooks found for theme: '' @ theme)), 0)
             else (Inr (PlotHookResult theme level (or_undefined (pick hooks (rnd 0)))), 1))"


section \<open>Notions used to state the properties\<close>

text \<open>How often the body of \<open>for (let i = 0; i < bound; i++)\<close> runs.\<close>

definition iterations :: "number \<Rightarrow> nat" where
  "iterations bound = (case bound of Num q \<Rightarrow> nat \<lceil>q\<rceil> | NaN \<Rightarrow> 0)"

text \<open>A document for traits.json with six traits.\<close>

definition traits_example :: traits_doc where
  "traits_example =
     \<lparr>traits = [''brave'', ''curious''], ideals = [''honor''], bonds = [''family''],
      flaws = [''greedy''], quirks = [''hums'']\<rparr>"

text \<open>
  Documents for weather.json: a desert whose winter is an empty list, and a desert with
  no winter; both have weather for any season.
\<close>

definition weather_empty_season :: weather_doc where
  "weather_empty_season = [''desert'' \<mapsto> [''winter'' \<mapsto> [], ''any'' \<mapsto> [''Hot and dry'']]]"

definition weather_no_season :: weather_doc where
  "weather_no_season = [''desert'' \<mapsto> [''any'' \<mapsto> [''Hot and dry'']]]"

text \<open>
  Documents for encounters.json: an encounter with a field named \<open>partyLevel\<close>, and one
  without.
\<close>

definition encounters_override :: encounters_doc where
  "encounters_override =
     [''forest'' \<mapsto> [''medium'' \<mapsto>
        [[(''name'', Str ''Wolf pack''), (''partyLevel'', Number (Num 9))]]]]"

definition encounters_example :: encounters_doc where
  "encounters_example =
     [''forest'' \<mapsto> [''medium'' \<mapsto>
        [[(''name'', Str ''Wolf pack''), (''count'', Number (Num 4))]]]]"

text \<open>A document for treasure.json with the treasure type individual and no other.\<close>

definition treasure_individual_only :: treasure_doc where
  "treasure_individual_only =
     \<lparr>by_type = [''individual'' \<mapsto> [''cr0-4'' \<mapsto> [(''cp'', Coin ''5d6'' 1)]]],
      items = Some \<lparr>magic_medium = Some [Str ''Potion of healing''],
                    magic_major = Some [Str ''Vorpal sword'']\<rparr>\<rparr>"

text \<open>
  The decimal numeral of a natural number, to state properties of every dice string
  \<open>NdM\<close>.
\<close>

definition digit_char :: "nat \<Rightarrow> char" where
  "digit_char d = char_of (48 + d)"

fun decimal :: "nat \<Rightarrow> string" where
  "decimal n = (if n < 10 then [digit_char n] else decimal (n div 10) @ [digit_char (n mod 10)])"

declare decimal.simps [simp del]

definition digit_chars :: "char set" where
  "digit_chars = digit_char ` {..<10}"

text \<open>
  The sum of \<open>n\<close> dice of \<open>m\<close> sides rolled with the draws from position \<open>p\<close> on.
\<close>

definition dice_total :: "random \<Rightarrow> nat \<Rightarrow> nat \<Rightarrow> nat \<Rightarrow> int" where
  "dice_total rnd p n m = (\<Sum>i<n. random_index (rnd (p + i)) m + 1)"

text \<open>A document for treasure.json.\<close>

definition treasure_example :: treasure_doc where
  "treasure_example =
     \<lparr>by_type =
        [''individual'' \<mapsto> [''cr0-4'' \<mapsto> [(''cp'', Coin ''5d6'' 1)],
                             ''cr5-10'' \<mapsto> [(''sp'', Coin ''4d6'' 10), (''gp'', Coin ''2d6'' 10)]],
         ''hoard'' \<mapsto> [''cr0-4'' \<mapsto> [(''cp'', Coin ''6d6'' 100), (''items'', Other (Number (Num 0)))],
                        ''cr5-10'' \<mapsto> [(''gp'', Coin ''2d6'' 10)]]],
      items = Some \<lparr>magic_medium = Some [Str ''Potion of healing'', Str ''Bag of holding''],
                    magic_major = Some [Str ''Vorpal sword'']\<rparr>\<rparr>"

text \<open>
  Every entry of a CR range is a coin kind with a dice string and a multiplier, or has
  the key \<open>items\<close>.
\<close>

definition coin_entries :: "(string \<times> bucket_field) list \<Rightarrow> bool" where
  "coin_entries entries =
     list_all (\<lambda>(coinType, diceData).
        coinType = ''items'' \<or> (case diceData of Coin dice k \<Rightarrow> True | Other v \<Rightarrow> False)) entries"

text \<open>
  Two random sources agree on the draws below \<open>n\<close>.
\<close>

definition agree :: "nat \<Rightarrow> random \<Rightarrow> random \<Rightarrow> bool" where
  "agree n rnd rnd' = (\<forall>i<n. rnd' i = rnd i)"

section \<open>The generators on a heap of objects and arrays\<close>

text \<open>
  Whether a generator changes what it fetched is a question about objects and arrays
  that are shared by reference. Here the document that \<open>response.json()\<close> builds lives
  on a heap of cells, a value is a primitive or the address of a cell, and the
  generators read properties of cells, allocate cells and write to cells as the
  statements of index.js do.

  Only own properties are modelled; an array has its \<open>length\<close>, and its elements are
  read by number. Where a value of the wrong kind is used as a number or inside a
  template literal the model is approximate (see \<open>as_number\<close> and \<open>to_text\<close>); the
  documents of the data model never get there.
\<close>

datatype hval = HUndefined | HNull | HBool bool | HNumber number | HStr string | HRef nat

datatype cell = ArrayCell "hval list" | ObjectCell "(string \<times> hval) list"

type_synonym heap = "cell list"

text \<open>A literal \<open>[...]\<close> or \<open>{...}\<close>: a new cell, at the next address.\<close>

definition alloc :: "cell \<Rightarrow> heap \<Rightarrow> hval \<times> heap" where
  "alloc c h = (HRef (length h), h @ [c])"

definition deref :: "heap \<Rightarrow> hval \<Rightarrow> cell option" where
  "deref h v = (case v of HRef a \<Rightarrow> if a < length h then Some (h ! a) else None | _ \<Rightarrow> None)"

text \<open>
  \<open>JSON.parse\<close>: the cells of a JSON value, children first, and the value that stands
  for it.
\<close>

fun load :: "jsval \<Rightarrow> heap \<Rightarrow> hval \<times> heap"
  and load_list :: "jsval list \<Rightarrow> heap \<Rightarrow> hval list \<times> heap"
  and load_props :: "(string \<times> jsval) list \<Rightarrow> heap \<Rightarrow> (string \<times> hval) list \<times> heap" where
  "load Undefined h = (HUndefined, h)"
| "load Null h = (HNull, h)"
| "load (Bool b) h = (HBool b, h)"
| "load (Number n) h = (HNumber n, h)"
| "load (Str s) h = (HStr s, h)"
| "load (Arr xs) h = (case load_list xs h of (vs, h') \<Rightarrow> alloc (ArrayCell vs) h')"
| "load (Obj ps) h = (case load_props ps h of (vs, h') \<Rightarrow> alloc (ObjectCell vs) h')"
| "load_list [] h = ([], h)"
| "load_list (x # xs) h =
     (case load x h of (v, h1) \<Rightarrow> case load_list xs h1 of (vs, h2) \<Rightarrow> (v # vs, h2))"
| "load_props [] h = ([], h)"
| "load_props (p # ps) h =
     (case load (snd p) h of (v, h1) \<Rightarrow>
        case load_props ps h1 of (vs, h2) \<Rightarrow> ((fst p, v) # vs, h2))"

text \<open>
  \<open>v[k]\<close> and \<open>v.k\<close> for a property name \<open>k\<close>: reading a property of \<open>undefined\<close> or
  \<open>null\<close> throws; a property that is not there is \<open>undefined\<close>.
\<close>

definition property :: "heap \<Rightarrow> hval \<Rightarrow> string \<Rightarrow> failure + hval" where
  "property h v k =
     (case v of
        HUndefined \<Rightarrow> Inl TypeError
      | HNull \<Rightarrow> Inl TypeError
      | HStr s \<Rightarrow> Inr (if k = ''length'' then HNumber (Num (of_nat (length s))) else HUndefined)
      | _ \<Rightarrow>
          (case deref h v of
             Some (ObjectCell props) \<Rightarrow>
               Inr (case map_of props k of Some x \<Rightarrow> x | None \<Rightarrow> HUndefined)
           | Some (ArrayCell xs) \<Rightarrow>
               Inr (if k = ''length'' then HNumber (Num (of_nat (length xs))) else HUndefined)
           | None \<Rightarrow> Inr HUndefined))"

text \<open>\<open>v?.[k]\<close>.\<close>

definition optional_property :: "heap \<Rightarrow> hval \<Rightarrow> string \<Rightarrow> failure + hval" where
  "optional_property h v k =
     (if v = HUndefined \<or> v = HNull then Inr HUndefined else property h v k)"

text \<open>\<open>v[i]\<close> for a number \<open>i\<close>: an element of an array, \<open>undefined\<close> outside of it.\<close>

definition element :: "heap \<Rightarrow> hval \<Rightarrow> number \<Rightarrow> failure + hval" where
  "element h v i =
     (case v of
        HUndefined \<Rightarrow> Inl TypeError
      | HNull \<Rightarrow> Inl TypeError
      | _ \<Rightarrow>
          (case deref h v of
             Some (ArrayCell xs) \<Rightarrow>
               Inr (case i of
                      NaN \<Rightarrow> HUndefined
                    | Num q \<Rightarrow>
                        if of_int \<lfloor>q\<rfloor> = q
                        then (case elem_at xs \<lfloor>q\<rfloor> of Some x \<Rightarrow> x | None \<Rightarrow> HUndefined)
                        else HUndefined)
           | _ \<Rightarrow> Inr HUndefined))"

fun truthy :: "hval \<Rightarrow> bool" where
  "truthy HUndefined = False"
| "truthy HNull = False"
| "truthy (HBool b) = b"
| "truthy (HNumber NaN) = False"
| "truthy (HNumber (Num q)) = (q \<noteq> 0)"
| "truthy (HStr s) = (s \<noteq> [])"
| "truthy (HRef a) = True"

text \<open>
  A value used as a number. Strings and objects are not converted (they are not
  numbers in the documents of the data model).
\<close>

definition as_number :: "hval \<Rightarrow> number" where
  "as_number v =
     (case v of
        HNumber n \<Rightarrow> n
      | HNull \<Rightarrow> Num 0
      | HBool b \<Rightarrow> Num (if b then 1 else 0)
      | _ \<Rightarrow> NaN)"

text \<open>
  A value inside a template literal. Numbers that are not integers and arrays are not
  printed as the language prints them.
\<close>

definition to_text :: "hval \<Rightarrow> string" where
  "to_text v =
     (case v of
        HStr s \<Rightarrow> s
      | HUndefined \<Rightarrow> ''undefined''
      | HNull \<Rightarrow> ''null''
      | HBool b \<Rightarrow> (if b then ''true'' else ''false'')
      | HNumber NaN \<Rightarrow> ''NaN''
      | HNumber (Num q) \<Rightarrow> (if q < 0 then ''-'' else []) @ decimal (nat \<bar>\<lfloor>q\<rfloor>\<bar>)
      | HRef a \<Rightarrow> ''[object Object]'')"

text \<open>
  The own properties of a value in order: what \<open>Object.entries(v)\<close> lists and what
  \<open>{...v}\<close> copies.
\<close>

definition own_entries :: "heap \<Rightarrow> hval \<Rightarrow> (string \<times> hval) list" where
  "own_entries h v =
     (case v of
        HStr s \<Rightarrow> zip (map decimal [0..<length s]) (map (\<lambda>c. HStr [c]) s)
      | _ \<Rightarrow>
          (case deref h v of
             Some (ObjectCell props) \<Rightarrow> props
           | Some (ArrayCell xs) \<Rightarrow> zip (map decimal [0..<length xs]) xs
           | None \<Rightarrow> []))"

text \<open>
  \<open>[...v]\<close>: the elements of an array or the characters of a string; nothing else can
  be spread into an array.
\<close>

definition iterate :: "heap \<Rightarrow> hval \<Rightarrow> failure + hval list" where
  "iterate h v =
     (case v of
        HStr s \<Rightarrow> Inr (map (\<lambda>c. HStr [c]) s)
      | _ \<Rightarrow>
          (case deref h v of
             Some (ArrayCell xs) \<Rightarrow> Inr xs
           | _ \<Rightarrow> Inl TypeError))"

text \<open>The elements of an array that a literal of the generator made.\<close>

definition elements :: "heap \<Rightarrow> hval \<Rightarrow> hval list" where
  "elements h v = (case deref h v of Some (ArrayCell xs) \<Rightarrow> xs | _ \<Rightarrow> [])"

text \<open>
  \<open>a.push(x)\<close> and \<open>o[k] = x\<close> write to the cell that \<open>a\<close> or \<open>o\<close> refers to, whichever
  it is. (The generators call them on the arrays and objects of their own literals; on
  another kind of value the model leaves the heap as it is.)
\<close>

definition push :: "hval \<Rightarrow> hval \<Rightarrow> heap \<Rightarrow> heap" where
  "push a x h =
     (case a of
        HRef i \<Rightarrow>
          (case deref h a of
             Some (ArrayCell xs) \<Rightarrow> h[i := ArrayCell (xs @ [x])]
           | _ \<Rightarrow> h)
      | _ \<Rightarrow> h)"

definition assign :: "hval \<Rightarrow> string \<Rightarrow> hval \<Rightarrow> heap \<Rightarrow> heap" where
  "assign obj k x h =
     (case obj of
        HRef i \<Rightarrow>
          (case deref h obj of
             Some (ObjectCell props) \<Rightarrow> h[i := ObjectCell (AList.update k x props)]
           | _ \<Rightarrow> h)
      | _ \<Rightarrow> h)"

text \<open>\<open>v || []\<close>: a new empty array when \<open>v\<close> is falsy.\<close>

definition or_new_array :: "hval \<Rightarrow> heap \<Rightarrow> hval \<times> heap" where
  "or_new_array v h = (if truthy v then (v, h) else alloc (ArrayCell []) h)"

text \<open>
  A run of a generator: what it returns (the address of the result object) or throws,
  the number of draws and the heap it leaves.
\<close>

type_synonym run = "(failure + hval) \<times> nat \<times> heap"

text \<open>A step that can throw, followed by the rest of the run.\<close>

definition need :: "failure + 'a \<Rightarrow> nat \<Rightarrow> heap \<Rightarrow> ('a \<Rightarrow> run) \<Rightarrow> run" where
  "need r p h rest = (case r of Inl e \<Rightarrow> (Inl e, p, h) | Inr x \<Rightarrow> rest x)"

text \<open>\<open>return {...}\<close>.\<close>

definition return_object :: "(string \<times> hval) list \<Rightarrow> nat \<Rightarrow> heap \<Rightarrow> run" where
  "return_object props p h = (case alloc (ObjectCell props) h of (r, h') \<Rightarrow> (Inr r, p, h'))"

text \<open>\<open>xs[Math.floor(Math.random() * xs.length)]\<close> for the value \<open>u\<close> of \<open>Math.random()\<close>.\<close>

definition random_element :: "heap \<Rightarrow> hval \<Rightarrow> rat \<Rightarrow> nat \<Rightarrow> (hval \<Rightarrow> run) \<Rightarrow> run" where
  "random_element h xs u p rest =
     need (property h xs ''length'') p h (\<lambda>len.
     need (element h xs (num_floor (num_mul (Num u) (as_number len)))) p h rest)"

text \<open>\<open>fetchData\<close>, with the document on the heap.\<close>

definition fetchData_heap :: "string \<Rightarrow> jsval fetched \<Rightarrow> heap \<Rightarrow> (failure + hval) \<times> heap" where
  "fetchData_heap filename resp h =
     (case fetchData filename resp of
        Inl e \<Rightarrow> (Inl e, h)
      | Inr doc \<Rightarrow> (case load doc h of (data, h') \<Rightarrow> (Inr data, h')))"

text \<open>The body of generate_encounter after the fetch (lines 21 to 33).\<close>

definition generate_encounter_from ::
  "heap \<Rightarrow> hval \<Rightarrow> hval \<Rightarrow> string \<Rightarrow> string option \<Rightarrow> random \<Rightarrow> run" where
  "generate_encounter_from h data level environment difficulty_arg rnd =
     (let difficulty = default_arg ''medium'' difficulty_arg in
      need (property h data ''encounters'') 0 h (\<lambda>table.
      need (property h table environment) 0 h (\<lambda>by_environment.
      need (optional_property h by_environment difficulty) 0 h (\<lambda>found.
        (case or_new_array found h of (encounters, h1) \<Rightarrow>
           need (property h1 encounters ''length'') 0 h1 (\<lambda>len.
             if len = HNumber (Num 0)
             then return_object
                    [(''error'', HStr (''No encounters found for '' @ environment @ '' / ''
                                        @ difficulty))] 0 h1
             else random_element h1 encounters (rnd 0) 1 (\<lambda>encounter.
                    return_object
                      (fold (\<lambda>(k, v). AList.update k v) (own_entries h1 encounter)
                         [(''environment'', HStr environment),
                          (''difficulty'', HStr difficulty),
                          (''partyLevel'', level)]) 1 h1)))))))"

definition generate_encounter_heap ::
  "jsval fetched \<Rightarrow> hval \<Rightarrow> string \<Rightarrow> string option \<Rightarrow> random \<Rightarrow> heap \<Rightarrow> run" where
  "generate_encounter_heap resp level environment difficulty_arg rnd h =
     (case fetchData_heap ''encounters.json'' resp h of
        (Inl e, h') \<Rightarrow> (Inl e, 0, h')
      | (Inr data, h') \<Rightarrow> generate_encounter_from h' data level environment difficulty_arg rnd)"

text \<open>The body of generate_npc_name (lines 38 to 45).\<close>

definition generate_npc_name_from :: "heap \<Rightarrow> hval \<Rightarrow> string \<Rightarrow> string \<Rightarrow> random \<Rightarrow> run" where
  "generate_npc_name_from h data race gender rnd =
     need (property h data ''names'') 0 h (\<lambda>table.
     need (property h table race) 0 h (\<lambda>by_race.
     need (optional_property h by_race gender) 0 h (\<lambda>found.
       (case or_new_array found h of (names, h1) \<Rightarrow>
          need (property h1 names ''length'') 0 h1 (\<lambda>len.
            if len = HNumber (Num 0)
            then return_object
                   [(''error'', HStr (''No names found for '' @ race @ '' / '' @ gender))] 0 h1
            else random_element h1 names (rnd 0) 1 (\<lambda>name.
                   return_object
                     [(''name'', name), (''race'', HStr race), (''gender'', HStr gender)] 1 h1))))))"

definition generate_npc_name_heap ::
  "jsval fetched \<Rightarrow> string \<Rightarrow> string \<Rightarrow> random \<Rightarrow> heap \<Rightarrow> run" where
  "generate_npc_name_heap resp race gender rnd h =
     (case fetchData_heap ''names.json'' resp h of
        (Inl e, h') \<Rightarrow> (Inl e, 0, h')
      | (Inr data, h') \<Rightarrow> generate_npc_name_from h' data race gender rnd)"

text \<open>The body of generate_location_name (lines 50 to 62).\<close>

definition generate_location_name_from :: "heap \<Rightarrow> hval \<Rightarrow> string \<Rightarrow> random \<Rightarrow> run" where
  "generate_location_name_from h data ty rnd =
     need (property h data ''locations'') 0 h (\<lambda>table.
     need (property h table ty) 0 h (\<lambda>location.
       if \<not> truthy location
       then return_object [(''error'', HStr (''No location type found: '' @ ty))] 0 h
       else
         need (property h location ''prefixes'') 0 h (\<lambda>prefixes.
         random_element h prefixes (rnd 0) 1 (\<lambda>prefix.
         need (property h location ''suffixes'') 1 h (\<lambda>suffixes.
         random_element h suffixes (rnd 1) 2 (\<lambda>suffix.
           return_object
             [(''name'', HStr (to_text prefix @ '' '' @ to_text suffix)), (''type'', HStr ty)]
             2 h))))))"

definition generate_location_name_heap :: "jsval fetched \<Rightarrow> string \<Rightarrow> random \<Rightarrow> heap \<Rightarrow> run" where
  "generate_location_name_heap resp ty rnd h =
     (case fetchData_heap ''locations.json'' resp h of
        (Inl e, h') \<Rightarrow> (Inl e, 0, h')
      | (Inr data, h') \<Rightarrow> generate_location_name_from h' data ty rnd)"

text \<open>
  The body of generate_personality (lines 67 to 83). \<open>select_trait_heap\<close> is the body
  of its loop, on the pair of the heap and the draws consumed.
\<close>

definition select_trait_heap :: "random \<Rightarrow> hval \<Rightarrow> hval \<Rightarrow> nat \<Rightarrow> heap \<times> nat \<Rightarrow> heap \<times> nat" where
  "select_trait_heap rnd all_traits selected i st =
     (case st of (h, p) \<Rightarrow>
        let trait = (case pick (elements h all_traits) (rnd p) of
                       None \<Rightarrow> HUndefined | Some x \<Rightarrow> x)
        in (if trait \<notin> set (elements h selected) then push selected trait h else h, Suc p))"

definition generate_personality_from :: "heap \<Rightarrow> hval \<Rightarrow> number option \<Rightarrow> random \<Rightarrow> run" where
  "generate_personality_from h data count_arg rnd =
     (let count = default_arg (Num 4) count_arg in
      need (property h data ''traits'') 0 h (\<lambda>v1. need (iterate h v1) 0 h (\<lambda>xs1.
      need (property h data ''ideals'') 0 h (\<lambda>v2. need (iterate h v2) 0 h (\<lambda>xs2.
      need (property h data ''bonds'') 0 h (\<lambda>v3. need (iterate h v3) 0 h (\<lambda>xs3.
      need (property h data ''flaws'') 0 h (\<lambda>v4. need (iterate h v4) 0 h (\<lambda>xs4.
      need (property h data ''quirks'') 0 h (\<lambda>v5. need (iterate h v5) 0 h (\<lambda>xs5.
        (case alloc (ArrayCell (xs1 @ xs2 @ xs3 @ xs4 @ xs5)) h of (all_traits, h1) \<Rightarrow>
         case alloc (ArrayCell []) h1 of (selected, h2) \<Rightarrow>
         case for_loop 0
                (num_min count (Num (of_nat (length (elements h2 all_traits)))))
                (select_trait_heap rnd all_traits selected) (h2, 0) of
           (h3, p) \<Rightarrow> return_object [(''traits'', selected)] p h3))))))))))))"

definition generate_personality_heap ::
  "jsval fetched \<Rightarrow> number option \<Rightarrow> random \<Rightarrow> heap \<Rightarrow> run" where
  "generate_personality_heap resp count_arg rnd h =
     (case fetchData_heap ''traits.json'' resp h of
        (Inl e, h') \<Rightarrow> (Inl e, 0, h')
      | (Inr data, h') \<Rightarrow> generate_personality_from h' data count_arg rnd)"

text \<open>
  The body of generate_treasure (lines 90 to 131). \<open>roll_coins_heap\<close> is the loop over
  the entries of the CR range, which writes to the object \<open>coins\<close>; it stops at the
  first entry that throws.
\<close>

definition roll_dice :: "random \<Rightarrow> nat \<Rightarrow> string \<Rightarrow> number \<times> nat" where
  "roll_dice rnd p dice =
     (let rolls = split_on CHR ''d'' dice;
          numDice = parseInt (elem_at rolls 0);
          diceSize = parseInt (elem_at rolls 1)
      in for_loop 0 numDice (roll_die rnd diceSize) (Num 0, p))"

fun roll_coins_heap ::
  "random \<Rightarrow> hval \<Rightarrow> (string \<times> hval) list \<Rightarrow> heap \<times> nat \<Rightarrow> failure option \<times> heap \<times> nat" where
  "roll_coins_heap rnd coins [] (h, p) = (None, h, p)"
| "roll_coins_heap rnd coins ((coinType, diceData) # rest) (h, p) =
     (if coinType \<noteq> ''items'' then
        (case property h diceData ''dice'' of
           Inl e \<Rightarrow> (Some e, h, p)
         | Inr dice \<Rightarrow>
             (case dice of
                HStr s \<Rightarrow>
                  (case roll_dice rnd p s of
                     (tot, p') \<Rightarrow>
                       (case property h diceData ''multiplier'' of
                          Inl e \<Rightarrow> (Some e, h, p')
                        | Inr multiplier \<Rightarrow>
                            roll_coins_heap rnd coins rest
                              (assign coins coinType (HNumber (num_mul tot (as_number multiplier))) h,
                               p')))
              | _ \<Rightarrow> (Some TypeError, h, p)))
      else roll_coins_heap rnd coins rest (h, p))"

text \<open>
  The body of the loop over the items, on the heap and the draws consumed; once a run
  has thrown, the runs after it do nothing.
\<close>

definition push_item_heap ::
  "random \<Rightarrow> hval \<Rightarrow> hval \<Rightarrow> nat \<Rightarrow> failure option \<times> heap \<times> nat \<Rightarrow> failure option \<times> heap \<times> nat" where
  "push_item_heap rnd itemPool treasureItems i st =
     (case st of
        (Some e, h, p) \<Rightarrow> (Some e, h, p)
      | (None, h, p) \<Rightarrow>
          (case property h itemPool ''length'' of
             Inl e \<Rightarrow> (Some e, h, Suc p)
           | Inr len \<Rightarrow>
               (case element h itemPool (num_floor (num_mul (Num (rnd p)) (as_number len))) of
                  Inl e \<Rightarrow> (Some e, h, Suc p)
                | Inr item \<Rightarrow> (None, push treasureItems item h, Suc p))))"

definition treasure_items_heap ::
  "random \<Rightarrow> hval \<Rightarrow> hval \<Rightarrow> number \<Rightarrow> string \<Rightarrow> heap \<times> nat \<Rightarrow> failure option \<times> heap \<times> nat" where
  "treasure_items_heap rnd its treasureItems cr ty st =
     (case st of (h, p) \<Rightarrow>
        if ty = ''hoard'' \<and> num_ge cr (Num 5) then
          (case property h its (if num_ge cr (Num 11) then ''magic_major'' else ''magic_medium'') of
             Inl e \<Rightarrow> (Some e, h, p)
           | Inr itemPool \<Rightarrow>
               let numItems = num_add (num_floor (num_mul (Num (rnd p)) (Num 3))) (Num 1)
               in for_loop 0 numItems (push_item_heap rnd itemPool treasureItems) (None, h, Suc p))
        else (None, h, p))"

definition generate_treasure_from :: "heap \<Rightarrow> hval \<Rightarrow> number \<Rightarrow> string option \<Rightarrow> random \<Rightarrow> run" where
  "generate_treasure_from h data cr type_arg rnd =
     (let ty = default_arg ''individual'' type_arg in
      need (property h data ''treasure'') 0 h (\<lambda>table.
      need (property h table ty) 0 h (\<lambda>by_type.
      need (property h by_type (crRange cr)) 0 h (\<lambda>treasureData.
      need (property h table ''items'') 0 h (\<lambda>its.
        (case alloc (ObjectCell []) h of (coins, h1) \<Rightarrow>
           (case (if truthy treasureData
                  then roll_coins_heap rnd coins (own_entries h1 treasureData) (h1, 0)
                  else (None, h1, 0)) of
              (Some e, h2, p) \<Rightarrow> (Inl e, p, h2)
            | (None, h2, p) \<Rightarrow>
                (case alloc (ArrayCell []) h2 of (treasureItems, h3) \<Rightarrow>
                   (case treasure_items_heap rnd its treasureItems cr ty (h3, p) of
                      (Some e, h4, p') \<Rightarrow> (Inl e, p', h4)
                    | (None, h4, p') \<Rightarrow>
                        return_object
                          [(''challengeRating'', HNumber cr), (''type'', HStr ty),
                           (''coins'', coins), (''items'', treasureItems)] p' h4)))))))))"

definition generate_treasure_heap ::
  "jsval fetched \<Rightarrow> number \<Rightarrow> string option \<Rightarrow> random \<Rightarrow> heap \<Rightarrow> run" where
  "generate_treasure_heap resp cr type_arg rnd h =
     (case fetchData_heap ''treasure.json'' resp h of
        (Inl e, h') \<Rightarrow> (Inl e, 0, h')
      | (Inr data, h') \<Rightarrow> generate_treasure_from h' data cr type_arg rnd)"

text \<open>
  The body of generate_weather (lines 136 to 145); \<open>describe_weather\<close> is its part after
  the choice of \<open>weatherOptions\<close>.
\<close>

definition describe_weather ::
  "heap \<Rightarrow> hval \<Rightarrow> string \<Rightarrow> hval \<Rightarrow> random \<Rightarrow> run" where
  "describe_weather h weather_options climate season rnd =
     need (property h weather_options ''length'') 0 h (\<lambda>len.
       if len = HNumber (Num 0)
       then return_object
              [(''error'', HStr (''No weather found for '' @ climate @ '' / '' @ to_text season))]
              0 h
       else random_element h weather_options (rnd 0) 1 (\<lambda>description.
              return_object
                [(''climate'', HStr climate), (''season'', season),
                 (''description'', description)] 1 h))"

definition generate_weather_from :: "heap \<Rightarrow> hval \<Rightarrow> string \<Rightarrow> string option \<Rightarrow> random \<Rightarrow> run" where
  "generate_weather_from h data climate season_arg rnd =
     (let season = (case season_arg of None \<Rightarrow> HUndefined | Some s \<Rightarrow> HStr s) in
      need (property h data ''weather'') 0 h (\<lambda>table.
      need (property h table climate) 0 h (\<lambda>by_climate.
      need (if truthy season then optional_property h by_climate (to_text season)
            else Inr season) 0 h (\<lambda>entry.
        if truthy entry then describe_weather h entry climate season rnd
        else
          need (optional_property h by_climate ''any'') 0 h (\<lambda>found.
            (case or_new_array found h of (weather_options, h1) \<Rightarrow>
               describe_weather h1 weather_options climate season rnd))))))"

definition generate_weather_heap ::
  "jsval fetched \<Rightarrow> string \<Rightarrow> string option \<Rightarrow> random \<Rightarrow> heap \<Rightarrow> run" where
  "generate_weather_heap resp climate season rnd h =
     (case fetchData_heap ''weather.json'' resp h of
        (Inl e, h') \<Rightarrow> (Inl e, 0, h')
      | (Inr data, h') \<Rightarrow> generate_weather_from h' data climate season rnd)"

text \<open>The body of generate_plot_hook (lines 150 to 161).\<close>

definition generate_plot_hook_from :: "heap \<Rightarrow> hval \<Rightarrow> string \<Rightarrow> hval \<Rightarrow> random \<Rightarrow> run" where
  "generate_plot_hook_from h data theme level rnd =
     need (property h data ''plot_hooks'') 0 h (\<lambda>table.
     need (property h table theme) 0 h (\<lambda>found.
       (case or_new_array found h of (hooks, h1) \<Rightarrow>
          need (property h1 hooks ''length'') 0 h1 (\<lambda>len.
            if len = HNumber (Num 0)
            then return_object
                   [(''error'', HStr (''No plot hooks found for theme: '' @ theme))] 0 h1
            else random_element h1 hooks (rnd 0) 1 (\<lambda>hook.
                   return_object
                     [(''theme'', HStr theme), (''suggestedLevel'', level), (''hook'', hook)]
                     1 h1)))))"

definition generate_plot_hook_heap ::
  "jsval fetched \<Rightarrow> string \<Rightarrow> hval \<Rightarrow> random \<Rightarrow> heap \<Rightarrow> run" where
  "generate_plot_hook_heap resp theme level rnd h =
     (case fetchData_heap ''plot_hooks.json'' resp h of
        (Inl e, h') \<Rightarrow> (Inl e, 0, h')
      | (Inr data, h') \<Rightarrow> generate_plot_hook_from h' data theme level rnd)"

text \<open>A document for plot_hooks.json whose hooks are records.\<close>

definition plot_hooks_json :: jsval where
  "plot_hooks_json =
     Obj [(''plot_hooks'',
           Obj [(''mystery'', Arr [Obj [(''title'', Str ''The missing heir'')]])])]"

text \<open>The document \<open>traits_example\<close> and the document \<open>treasure_example\<close> as JSON.\<close>

definition traits_json :: jsval where
  "traits_json =
     Obj [(''traits'', Arr [Str ''brave'', Str ''curious'']), (''ideals'', Arr [Str ''honor'']),
          (''bonds'', Arr [Str ''family'']), (''flaws'', Arr [Str ''greedy'']),
          (''quirks'', Arr [Str ''hums''])]"

definition treasure_json :: jsval where
  "treasure_json =
     Obj [(''treasure'',
       Obj [(''individual'',
              Obj [(''cr0-4'', Obj [(''cp'', Obj [(''dice'', Str ''5d6''), (''multiplier'', Number (Num 1))])]),
                   (''cr5-10'',
                     Obj [(''sp'', Obj [(''dice'', Str ''4d6''), (''multiplier'', Number (Num 10))]),
                          (''gp'', Obj [(''dice'', Str ''2d6''), (''multiplier'', Number (Num 10))])])]),
            (''hoard'',
              Obj [(''cr0-4'',
                     Obj [(''cp'', Obj [(''dice'', Str ''6d6''), (''multiplier'', Number (Num 100))]),
                          (''items'', Number (Num 0))]),
                   (''cr5-10'',
                     Obj [(''gp'', Obj [(''dice'', Str ''2d6''), (''multiplier'', Number (Num 10))])])]),
            (''items'',
              Obj [(''magic_medium'', Arr [Str ''Potion of healing'', Str ''Bag of holding'']),
                   (''magic_major'', Arr [Str ''Vorpal sword''])])])]"

text \<open>
  The cells of \<open>h0\<close> are the first cells of \<open>h\<close>, with their contents: nothing that was
  on the heap \<open>h0\<close> has been written to.
\<close>

definition keeps :: "heap \<Rightarrow> heap \<Rightarrow> bool" where
  "keeps h0 h = (take (length h0) h = h0)"

text \<open>
  The value is an object that was allocated after \<open>h0\<close>; and, for \<open>new_fields\<close>, none of
  its properties refers to a cell of \<open>h0\<close>.
\<close>

definition new_object :: "heap \<Rightarrow> heap \<Rightarrow> hval \<Rightarrow> bool" where
  "new_object h0 h v =
     (case v of
        HRef a \<Rightarrow>
          length h0 \<le> a \<and> a < length h
          \<and> (case h ! a of ObjectCell props \<Rightarrow> True | ArrayCell xs \<Rightarrow> False)
      | _ \<Rightarrow> False)"

definition is_new :: "heap \<Rightarrow> hval \<Rightarrow> bool" where
  "is_new h0 x = (case x of HRef a \<Rightarrow> length h0 \<le> a | _ \<Rightarrow> True)"

definition new_fields :: "heap \<Rightarrow> heap \<Rightarrow> hval \<Rightarrow> bool" where
  "new_fields h0 h v =
     (case deref h v of
        Some (ObjectCell props) \<Rightarrow> list_all (\<lambda>(k, x). is_new h0 x) props
      | _ \<Rightarrow> False)"

text \<open>
  A run from the heap \<open>h0\<close> keeps \<open>h0\<close> and, when it returns, returns an object it has
  allocated.
\<close>

definition sound :: "heap \<Rightarrow> run \<Rightarrow> bool" where
  "sound h0 r =
     (case r of (out, p, h) \<Rightarrow>
        keeps h0 h \<and> (case out of Inl e \<Rightarrow> True | Inr v \<Rightarrow> new_object h0 h v))"

definition sound_new :: "heap \<Rightarrow> run \<Rightarrow> bool" where
  "sound_new h0 r =
     (case r of (out, p, h) \<Rightarrow>
        keeps h0 h
        \<and> (case out of Inl e \<Rightarrow> True | Inr v \<Rightarrow> new_object h0 h v \<and> new_fields h0 h v))"

section \<open>Loops and draws\<close>

lemma num_lt_iterations: "num_lt (Num (of_nat i)) bound \<longleftrightarrow> i < iterations bound"
proof (cases bound)
  case (Num q)
  have "of_nat i < q \<longleftrightarrow> int i < \<lceil>q\<rceil>"
    by (simp add: less_ceiling_iff)
  then show ?thesis using Num by (simp add: iterations_def) linarith
next
  case NaN
  then show ?thesis by (simp add: iterations_def)
qed

text \<open>The loop runs its body on the counters \<open>i, i + 1, ...\<close> below the bound, in order.\<close>

lemma for_loop_fold: "for_loop i bound body s = fold body [i..<iterations bound] s"
proof (induction "iterations bound - i" arbitrary: i s)
  case 0
  then have "\<not> i < iterations bound" by simp
  then show ?case
    by (subst for_loop.simps) (simp add: num_lt_iterations)
next
  case (Suc k)
  then have lt: "i < iterations bound" and k: "k = iterations bound - Suc i" by simp_all
  have "for_loop i bound body s = for_loop (Suc i) bound body (body i s)"
    using lt by (subst for_loop.simps) (simp add: num_lt_iterations)
  also have "\<dots> = fold body [Suc i..<iterations bound] (body i s)"
    using Suc.hyps(1) [OF k] .
  also have "\<dots> = fold body [i..<iterations bound] s"
    using lt by (simp add: upt_conv_Cons)
  finally show ?case .
qed

lemma iterations_nat [simp]: "iterations (Num (of_nat n)) = n"
  by (simp add: iterations_def)

lemma random_index_range:
  assumes "0 \<le> u" "u < 1" "0 < n"
  shows "0 \<le> random_index u n \<and> random_index u n < int n"
proof -
  have "0 \<le> u * of_nat n" using assms by simp
  moreover have "u * of_nat n < of_nat n" using assms by simp
  ultimately show ?thesis
    unfolding random_index_def by (simp add: floor_less_iff)
qed

text \<open>
  The index \<open>j\<close> is drawn exactly when the value of \<open>Math.random()\<close> lies in the \<open>j\<close>-th
  of \<open>n\<close> intervals of equal length: a uniform value gives a uniform index.
\<close>

lemma random_index_uniform:
  assumes "0 < n"
  shows "random_index u n = int j \<longleftrightarrow> of_nat j / of_nat n \<le> u \<and> u < (of_nat j + 1) / of_nat n"
proof -
  have "random_index u n = int j \<longleftrightarrow> of_int (int j) \<le> u * of_nat n \<and> u * of_nat n < of_int (int j) + 1"
    unfolding random_index_def by (rule floor_eq_iff)
  also have "\<dots> \<longleftrightarrow> of_nat j / of_nat n \<le> u \<and> u < (of_nat j + 1) / of_nat n"
    using assms by (simp add: pos_divide_le_eq pos_less_divide_eq)
  finally show ?thesis .
qed

lemma pick_Some:
  assumes "0 \<le> u" "u < 1" "xs \<noteq> []"
  shows "\<exists>x. pick xs u = Some x \<and> x \<in> set xs"
proof -
  have "0 < length xs" using assms by simp
  from random_index_range [OF assms(1,2) this]
  have r: "0 \<le> random_index u (length xs)" "random_index u (length xs) < int (length xs)"
    by simp_all
  then have "nat (random_index u (length xs)) < length xs"
    by linarith
  with r show ?thesis by (simp add: pick_def elem_at_def)
qed

section \<open>The CR range of generate_treasure\<close>


section \<open>generate_personality\<close>

lemma select_trait_step:
  "select_trait rnd pool i (selected, p) =
     (if pick pool (rnd p) \<in> set selected then selected else selected @ [pick pool (rnd p)], Suc p)"
  by (simp add: select_trait_def Let_def)

text \<open>
  What any number of runs of the loop body keeps: the selected traits are pairwise
  distinct, each run adds at most one, and each was drawn in one of the runs.
\<close>

lemma fold_select_trait:
  assumes "fold (select_trait rnd pool) js (selected, p) = (selected', p')"
      and "distinct selected"
  shows "distinct selected' \<and> length selected' \<le> length selected + length js
         \<and> p' = p + length js \<and> set selected \<subseteq> set selected'
         \<and> set selected' \<subseteq> set selected \<union> {pick pool (rnd j) | j. p \<le> j \<and> j < p'}"
  using assms
proof (induction js arbitrary: selected p)
  case Nil
  then show ?case by auto
next
  case (Cons j js)
  define t where "t = pick pool (rnd p)"
  define s where "s = (if t \<in> set selected then selected else selected @ [t])"
  have step: "select_trait rnd pool j (selected, p) = (s, Suc p)"
    unfolding s_def t_def by (rule select_trait_step)
  from Cons.prems(1) have run: "fold (select_trait rnd pool) js (s, Suc p) = (selected', p')"
    by (simp only: fold_simps o_apply step)
  have d: "distinct s" using Cons.prems(2) by (simp add: s_def)
  note ih = Cons.IH [OF run d]
  have p': "p' = Suc p + length js" using ih by blast
  have l: "length s \<le> Suc (length selected)" by (simp add: s_def)
  have s1: "set selected \<subseteq> set s" by (auto simp: s_def)
  have s2: "set s \<subseteq> set selected \<union> {t}" by (auto simp: s_def)
  have t: "t \<in> {pick pool (rnd j) | j. p \<le> j \<and> j < p'}"
    unfolding t_def using p' by auto
  have s3: "{pick pool (rnd j) | j. Suc p \<le> j \<and> j < p'} \<subseteq> {pick pool (rnd j) | j. p \<le> j \<and> j < p'}"
    by auto
  have "distinct selected'" using ih by blast
  moreover have "length selected' \<le> length selected + length (j # js)"
    using ih l by simp
  moreover have "p' = p + length (j # js)" using p' by simp
  moreover have "set selected \<subseteq> set selected'" using ih s1 by blast
  moreover have "set selected' \<subseteq> set selected \<union> {pick pool (rnd j) | j. p \<le> j \<and> j < p'}"
  proof -
    have "set selected' \<subseteq> set s \<union> {pick pool (rnd j) | j. Suc p \<le> j \<and> j < p'}"
      using ih by blast
    with s2 s3 t show ?thesis by blast
  qed
  ultimately show ?case by blast
qed

lemma fold_select_trait_same:
  assumes "\<And>j. pick pool (rnd j) = t"
  shows "fold (select_trait rnd pool) js ([t], p) = ([t], p + length js)"
  using assms by (induction js arbitrary: p) (simp_all add: select_trait_step)

lemma fold_select_trait_same_first:
  assumes "\<And>j. pick pool (rnd j) = t"
  shows "fold (select_trait rnd pool) (j # js) ([], p) = ([t], Suc p + length js)"
  using fold_select_trait_same [where js = js and p = "Suc p", OF assms] assms
  by (simp add: select_trait_step)

lemma generate_personality_fold:
  assumes "fetchData ''traits.json'' resp = Inr data"
  shows "generate_personality resp count_arg rnd =
     (case fold (select_trait rnd (allTraits data))
             [0..<iterations (num_min (default_arg (Num 4) count_arg)
                                (Num (of_nat (length (allTraits data)))))] ([], 0) of
        (selected, p) \<Rightarrow> (Inr (PersonalityResult selected), p))"
  using assms by (simp add: generate_personality_def for_loop_fold)

lemma traits_example_run:
  "generate_personality (Response True ''OK'' (Some traits_example)) None (\<lambda>_. 1 / 2)
     = (Inr (PersonalityResult [Some ''family'']), 4)"
  by code_simp

text \<open>
  C6. When traits.json is fetched and the count (4 when none is given) is a natural
  number \<open>c\<close>, generate_personality returns a list of pairwise distinct traits, of
  length at most \<open>c\<close> and at most the size of the pool of the five categories. When
  every draw gives the same index, \<open>c\<close> is positive and the pool is not empty, the
  list has exactly one trait: a draw that repeats a trait is skipped and not made
  again, so the list can be shorter than \<open>c\<close> (one trait for count 4 on a pool of six).
\<close>

theorem generate_personality_distinct_underfill:
  assumes fetched: "fetchData ''traits.json'' resp = Inr data"
      and count: "default_arg (Num 4) count_arg = Num (of_nat c)"
  shows "\<exists>selected p.
           generate_personality resp count_arg rnd = (Inr (PersonalityResult selected), p)
           \<and> distinct selected
           \<and> length selected \<le> c
           \<and> length selected \<le> length (allTraits data)
           \<and> ((\<forall>i j. random_index (rnd i) (length (allTraits data))
                       = random_index (rnd j) (length (allTraits data)))
                \<and> 0 < c \<and> allTraits data \<noteq> [] \<longrightarrow> length selected = 1)"
proof -
  define n where "n = min c (length (allTraits data))"
  have it: "iterations (num_min (default_arg (Num 4) count_arg)
              (Num (of_nat (length (allTraits data))))) = n"
    unfolding count n_def by (simp flip: of_nat_min)
  obtain selected p where run: "fold (select_trait rnd (allTraits data)) [0..<n] ([], 0) = (selected, p)"
    by (cases "fold (select_trait rnd (allTraits data)) [0..<n] ([], 0)")
  have res: "generate_personality resp count_arg rnd = (Inr (PersonalityResult selected), p)"
    by (simp add: generate_personality_fold [OF fetched] it run)
  from fold_select_trait [OF run] have inv: "distinct selected" "length selected \<le> n"
    by simp_all
  have same: "length selected = 1"
    if same: "\<forall>i j. random_index (rnd i) (length (allTraits data))
                  = random_index (rnd j) (length (allTraits data))"
      and "0 < c" "allTraits data \<noteq> []"
  proof -
    have "0 < n" using that by (simp add: n_def)
    then have "[0..<n] = 0 # [Suc 0..<n]"
      by (rule upt_conv_Cons)
    then obtain js where js: "[0..<n] = 0 # js" ..
    have "\<And>j. pick (allTraits data) (rnd j) = pick (allTraits data) (rnd 0)"
      unfolding pick_def using same by metis
    from fold_select_trait_same_first [of "allTraits data" rnd, OF this]
    have "fold (select_trait rnd (allTraits data)) (0 # js) ([], 0)
            = ([pick (allTraits data) (rnd 0)], Suc 0 + length js)" .
    with run js show ?thesis by simp
  qed
  show ?thesis
    using res inv same by (auto simp: n_def)
qed

theorem generate_personality_distinct_underfill_witness:
  "fetchData ''traits.json'' (Response True ''OK'' (Some traits_example)) = Inr traits_example
   \<and> default_arg (Num 4) None = Num (of_nat 4)
   \<and> length (allTraits traits_example) = 6
   \<and> (\<exists>selected p.
        generate_personality (Response True ''OK'' (Some traits_example)) None (\<lambda>_. 1 / 2)
          = (Inr (PersonalityResult selected), p)
        \<and> selected = [Some ''family''] \<and> distinct selected \<and> length selected = 1
        \<and> length selected < 4)"
proof -
  have f: "fetchData ''traits.json'' (Response True ''OK'' (Some traits_example)) = Inr traits_example"
    by (simp add: fetchData_def)
  have c: "default_arg (Num 4) None = Num (of_nat 4)"
    by (simp add: default_arg_def)
  have l: "length (allTraits traits_example) = 6"
    by (simp add: allTraits_def traits_example_def)
  from generate_personality_distinct_underfill [OF f c, of "\<lambda>_. 1 / 2"]
  obtain selected p where
    "generate_personality (Response True ''OK'' (Some traits_example)) None (\<lambda>_. 1 / 2)
       = (Inr (PersonalityResult selected), p)"
    "distinct selected" "length selected \<le> 4"
    by blast
  then show ?thesis
    using f c l by (auto simp: traits_example_run)
qed


section \<open>generate_weather\<close>

text \<open>
  C3, as the spec states it, fails: a season whose entry is there but empty is used and
  not replaced by the weather for any season; the result is the error object although
  the climate has weather for any season.
\<close>

theorem generate_weather_empty_season_counterexample:
  "opt_chain (weather_empty_season ''desert'') ''winter'' = Some []
   \<and> or_empty (opt_chain (weather_empty_season ''desert'') ''any'') = [''Hot and dry'']
   \<and> weatherOptions weather_empty_season ''desert'' (Some ''winter'') = []
   \<and> generate_weather (Response True ''OK'' (Some weather_empty_season)) ''desert''
        (Some ''winter'') (\<lambda>_. 0)
      = (Inr (ErrorPayload ''No weather found for desert / winter''), 0)"
  by (simp add: generate_weather_def weatherOptions_def weather_empty_season_def fetchData_def
      opt_chain_def or_empty_def to_string_def)

text \<open>
  C3, amended. When weather.json is fetched, generate_weather uses the entry of the
  season under the climate whenever a season is given (and is not the empty string)
  and the entry is there, empty or not; when no season is given or the entry is not
  there it uses the entry \<open>any\<close> of the climate, the empty list when that is not
  there. It returns the error object exactly when the list it uses is empty, and
  otherwise a description from that list together with the climate and the season as
  the caller gave it.
\<close>

theorem generate_weather_options:
  assumes fetched: "fetchData ''weather.json'' resp = Inr data"
      and draws: "unit_draws rnd"
  shows "(\<forall>s options. season = Some s \<and> s \<noteq> [] \<and> opt_chain (data climate) s = Some options
            \<longrightarrow> weatherOptions data climate season = options)
         \<and> (season = None \<or> season = Some []
              \<or> (\<exists>s. season = Some s \<and> opt_chain (data climate) s = None)
            \<longrightarrow> weatherOptions data climate season = or_empty (opt_chain (data climate) ''any''))
         \<and> (weatherOptions data climate season = []
            \<longrightarrow> generate_weather resp climate season rnd
                = (Inr (ErrorPayload (''No weather found for '' @ climate @ '' / '' @ to_string season)), 0))
         \<and> (weatherOptions data climate season \<noteq> []
            \<longrightarrow> (\<exists>description. description \<in> set (weatherOptions data climate season)
                  \<and> generate_weather resp climate season rnd
                      = (Inr (WeatherResult climate season (Some description)), 1)))"
proof -
  have a: "\<forall>s options. season = Some s \<and> s \<noteq> [] \<and> opt_chain (data climate) s = Some options
            \<longrightarrow> weatherOptions data climate season = options"
    by (simp add: weatherOptions_def Let_def)
  have b: "season = None \<or> season = Some []
              \<or> (\<exists>s. season = Some s \<and> opt_chain (data climate) s = None)
            \<longrightarrow> weatherOptions data climate season = or_empty (opt_chain (data climate) ''any'')"
    by (cases season) (auto simp: weatherOptions_def Let_def)
  have c: "weatherOptions data climate season = []
            \<longrightarrow> generate_weather resp climate season rnd
                = (Inr (ErrorPayload (''No weather found for '' @ climate @ '' / '' @ to_string season)), 0)"
    by (simp add: generate_weather_def fetched)
  have d: "\<exists>description. description \<in> set (weatherOptions data climate season)
                  \<and> generate_weather resp climate season rnd
                      = (Inr (WeatherResult climate season (Some description)), 1)"
    if ne: "weatherOptions data climate season \<noteq> []"
  proof -
    from draws have "0 \<le> rnd 0" "rnd 0 < 1" by (simp_all add: unit_draws_def)
    from pick_Some [OF this ne] obtain x where
      "pick (weatherOptions data climate season) (rnd 0) = Some x"
      "x \<in> set (weatherOptions data climate season)" by blast
    then show ?thesis using ne by (simp add: generate_weather_def fetched Let_def)
  qed
  from a b c d show ?thesis by blast
qed

theorem generate_weather_options_witness:
  "fetchData ''weather.json'' (Response True ''OK'' (Some weather_no_season)) = Inr weather_no_season
   \<and> unit_draws (\<lambda>_. 0)
   \<and> opt_chain (weather_no_season ''desert'') ''winter'' = None
   \<and> weatherOptions weather_no_season ''desert'' (Some ''winter'') = [''Hot and dry'']
   \<and> generate_weather (Response True ''OK'' (Some weather_no_season)) ''desert''
        (Some ''winter'') (\<lambda>_. 0)
      = (Inr (WeatherResult ''desert'' (Some ''winter'') (Some ''Hot and dry'')), 1)"
proof -
  have f: "fetchData ''weather.json'' (Response True ''OK'' (Some weather_no_season)) = Inr weather_no_season"
    by (simp add: fetchData_def)
  have u: "unit_draws (\<lambda>_. 0)"
    by (simp add: unit_draws_def)
  have n: "opt_chain (weather_no_season ''desert'') ''winter'' = None"
    by (simp add: weather_no_season_def opt_chain_def)
  have o: "or_empty (opt_chain (weather_no_season ''desert'') ''any'') = [''Hot and dry'']"
    by (simp add: weather_no_season_def opt_chain_def or_empty_def)
  from generate_weather_options [OF f u, of "Some ''winter''" "''desert''"] n o
  show ?thesis using f u by auto
qed


section \<open>generate_encounter\<close>

lemma map_of_spread_fold:
  "map_of (fold (\<lambda>(k, v). AList.update k v) props obj) = map_of obj ++ map_of (rev props)"
proof (induction props arbitrary: obj)
  case Nil
  then show ?case by simp
next
  case (Cons f props)
  obtain k v where f: "f = (k, v)" by (cases f)
  have "map_of (fold (\<lambda>(k, v). AList.update k v) (f # props) obj)
          = map_of (AList.update k v obj) ++ map_of (rev props)"
    by (simp add: f Cons.IH)
  also have "\<dots> = map_of obj ++ map_of (rev (f # props))"
    by (simp add: f AList.update_conv' map_add_def fun_eq_iff split: option.splits)
  finally show ?case .
qed

lemma map_of_spread:
  "map_of (spread obj (Some props)) = map_of obj ++ map_of (rev props)"
  by (simp add: spread_def map_of_spread_fold)

text \<open>
  C4, as the spec states it, fails: the fields of the encounter are defined after
  \<open>environment\<close>, \<open>difficulty\<close> and \<open>partyLevel\<close>, so an encounter with a field
  \<open>partyLevel\<close> replaces the level of the caller.
\<close>

theorem generate_encounter_override_counterexample:
  "or_empty (opt_chain (encounters_override ''forest'') ''medium'')
     = [[(''name'', Str ''Wolf pack''), (''partyLevel'', Number (Num 9))]]
   \<and> generate_encounter (Response True ''OK'' (Some encounters_override)) (Number (Num 3))
        ''forest'' (Some ''medium'') (\<lambda>_. 0)
      = (Inr (EncounterResult
           [(''environment'', Str ''forest''), (''difficulty'', Str ''medium''),
            (''partyLevel'', Number (Num 9)), (''name'', Str ''Wolf pack'')]), 1)
   \<and> map_of [(''environment'', Str ''forest''), (''difficulty'', Str ''medium''),
            (''partyLevel'', Number (Num 9)), (''name'', Str ''Wolf pack'')] ''partyLevel''
      \<noteq> Some (Number (Num 3))"
  by (simp add: generate_encounter_def encounters_override_def fetchData_def opt_chain_def
      or_empty_def default_arg_def pick_def random_index_def elem_at_def spread_def)

text \<open>
  C4, amended. When encounters.json is fetched and the list under the environment and
  the difficulty (medium when none is given) is not empty, generate_encounter returns
  the object made of \<open>environment\<close>, \<open>difficulty\<close> and \<open>partyLevel\<close> (the level of the
  caller) overridden by the fields of the encounter at the drawn index: every field of
  the encounter is in the result with the encounter's value, and each of the three
  echoed fields has the caller's value when the encounter has no field of that name.
\<close>

theorem generate_encounter_merge:
  assumes fetched: "fetchData ''encounters.json'' resp = Inr data"
      and draws: "unit_draws rnd"
      and found: "or_empty (opt_chain (data environment) (default_arg ''medium'' difficulty_arg))
                    = encounters"
      and nonempty: "encounters \<noteq> []"
  shows "\<exists>encounter result.
           encounter = encounters ! nat (random_index (rnd 0) (length encounters))
           \<and> encounter \<in> set encounters
           \<and> generate_encounter resp level environment difficulty_arg rnd
               = (Inr (EncounterResult result), 1)
           \<and> map_of result =
               [''environment'' \<mapsto> Str environment,
                ''difficulty'' \<mapsto> Str (default_arg ''medium'' difficulty_arg),
                ''partyLevel'' \<mapsto> level] ++ map_of (rev encounter)
           \<and> (''partyLevel'' \<notin> fst ` set encounter \<longrightarrow> map_of result ''partyLevel'' = Some level)
           \<and> (''environment'' \<notin> fst ` set encounter
                \<longrightarrow> map_of result ''environment'' = Some (Str environment))
           \<and> (''difficulty'' \<notin> fst ` set encounter
                \<longrightarrow> map_of result ''difficulty''
                      = Some (Str (default_arg ''medium'' difficulty_arg)))
           \<and> (\<forall>k \<in> fst ` set encounter. map_of result k = map_of (rev encounter) k)"
proof -
  define i where "i = random_index (rnd 0) (length encounters)"
  define encounter where "encounter = encounters ! nat i"
  define base where "base = [(''environment'', Str environment),
      (''difficulty'', Str (default_arg ''medium'' difficulty_arg)), (''partyLevel'', level)]"
  define result where "result = spread base (Some encounter)"
  from draws have u: "0 \<le> rnd 0" "rnd 0 < 1" by (simp_all add: unit_draws_def)
  have "0 < length encounters" using nonempty by simp
  from random_index_range [OF u this] have i: "0 \<le> i" "i < int (length encounters)"
    by (simp_all add: i_def)
  then have ni: "nat i < length encounters" by linarith
  have picked: "pick encounters (rnd 0) = Some encounter"
    using i by (simp add: pick_def elem_at_def i_def encounter_def)
  have mem: "encounter \<in> set encounters"
    using ni by (simp add: encounter_def)
  have run: "generate_encounter resp level environment difficulty_arg rnd
               = (Inr (EncounterResult result), 1)"
    using nonempty
    by (simp add: generate_encounter_def fetched found Let_def picked result_def base_def)
  have m: "map_of result = map_of base ++ map_of (rev encounter)"
    by (simp add: result_def map_of_spread)
  have mb: "map_of base = [''environment'' \<mapsto> Str environment,
                ''difficulty'' \<mapsto> Str (default_arg ''medium'' difficulty_arg),
                ''partyLevel'' \<mapsto> level]"
    by (auto simp: base_def fun_eq_iff)
  have absent: "map_of result k = map_of base k" if "k \<notin> fst ` set encounter" for k
  proof -
    from that have "map_of (rev encounter) k = None"
      by (simp add: map_of_eq_None_iff)
    then show ?thesis by (simp add: m map_add_def)
  qed
  have present: "map_of result k = map_of (rev encounter) k" if "k \<in> fst ` set encounter" for k
  proof -
    from that have "map_of (rev encounter) k \<noteq> None"
      by (simp add: map_of_eq_None_iff)
    then show ?thesis by (auto simp: m map_add_def)
  qed
  have "map_of result =
               [''environment'' \<mapsto> Str environment,
                ''difficulty'' \<mapsto> Str (default_arg ''medium'' difficulty_arg),
                ''partyLevel'' \<mapsto> level] ++ map_of (rev encounter)"
    using m mb by simp
  moreover have "''partyLevel'' \<notin> fst ` set encounter \<longrightarrow> map_of result ''partyLevel'' = Some level"
    using absent [of "''partyLevel''"] by (simp add: base_def)
  moreover have "''environment'' \<notin> fst ` set encounter
                \<longrightarrow> map_of result ''environment'' = Some (Str environment)"
    using absent [of "''environment''"] by (simp add: base_def)
  moreover have "''difficulty'' \<notin> fst ` set encounter
                \<longrightarrow> map_of result ''difficulty''
                      = Some (Str (default_arg ''medium'' difficulty_arg))"
    using absent [of "''difficulty''"] by (simp add: base_def)
  moreover have "\<forall>k \<in> fst ` set encounter. map_of result k = map_of (rev encounter) k"
    using present by blast
  ultimately show ?thesis
    using run mem unfolding encounter_def i_def by blast
qed

theorem generate_encounter_merge_witness:
  "fetchData ''encounters.json'' (Response True ''OK'' (Some encounters_example))
     = Inr encounters_example
   \<and> unit_draws (\<lambda>_. 0)
   \<and> or_empty (opt_chain (encounters_example ''forest'') (default_arg ''medium'' None))
       = [[(''name'', Str ''Wolf pack''), (''count'', Number (Num 4))]]
   \<and> generate_encounter (Response True ''OK'' (Some encounters_example)) (Number (Num 3))
        ''forest'' None (\<lambda>_. 0)
      = (Inr (EncounterResult
           [(''environment'', Str ''forest''), (''difficulty'', Str ''medium''),
            (''partyLevel'', Number (Num 3)), (''name'', Str ''Wolf pack''),
            (''count'', Number (Num 4))]), 1)"
proof -
  have f: "fetchData ''encounters.json'' (Response True ''OK'' (Some encounters_example))
     = Inr encounters_example"
    by (simp add: fetchData_def)
  have u: "unit_draws (\<lambda>_. 0)"
    by (simp add: unit_draws_def)
  have e: "or_empty (opt_chain (encounters_example ''forest'') (default_arg ''medium'' None))
       = [[(''name'', Str ''Wolf pack''), (''count'', Number (Num 4))]]"
    by (simp add: encounters_example_def opt_chain_def or_empty_def default_arg_def)
  have ne: "[[(''name'', Str ''Wolf pack''), (''count'', Number (Num 4))]] \<noteq> []"
    by simp
  from generate_encounter_merge [OF f u e ne, of "Number (Num 3)"]
  obtain result where
    r: "generate_encounter (Response True ''OK'' (Some encounters_example)) (Number (Num 3))
        ''forest'' None (\<lambda>_. 0) = (Inr (EncounterResult result), 1)"
    by blast
  have "generate_encounter (Response True ''OK'' (Some encounters_example)) (Number (Num 3))
        ''forest'' None (\<lambda>_. 0)
      = (Inr (EncounterResult
           [(''environment'', Str ''forest''), (''difficulty'', Str ''medium''),
            (''partyLevel'', Number (Num 3)), (''name'', Str ''Wolf pack''),
            (''count'', Number (Num 4))]), 1)"
    by (simp add: generate_encounter_def encounters_example_def fetchData_def opt_chain_def
      or_empty_def default_arg_def pick_def random_index_def elem_at_def spread_def)
  with r f u e show ?thesis by simp
qed


section \<open>Fetch failures and missing categories\<close>

lemma fetchData_failures:
  "fetchData filename resp = Inl e \<longleftrightarrow>
     resp = Rejected \<and> e = NetworkError
     \<or> (\<exists>statusText body. resp = Response False statusText body
           \<and> e = FetchError (''Failed to fetch '' @ filename @ '': '' @ statusText))
     \<or> (\<exists>statusText. resp = Response True statusText None \<and> e = SyntaxError)"
  by (cases resp) (auto simp: fetchData_def split: option.splits)



section \<open>generate_treasure: a treasure type the document does not have\<close>

text \<open>
  C8 fails on the code: with treasure.json fetched and no entry for the treasure type,
  reading the CR range of \<open>undefined\<close> throws, where the claim has a result with no
  coins. (The lines 21, 38, 136 and 138 guard the same kind of lookup with \<open>?.\<close>.)
\<close>

theorem generate_treasure_missing_type_throws:
  "treasure_type treasure_individual_only ''hoard'' = None
   \<and> generate_treasure (Response True ''OK'' (Some treasure_individual_only)) (Num 3)
        (Some ''hoard'') (\<lambda>_. 0)
      = (Inl TypeError, 0)"
  by (simp add: generate_treasure_def fetchData_def treasure_type_def
      treasure_individual_only_def default_arg_def)

text \<open>
  When the treasure type is there and only its CR range is missing, the coin loop is
  skipped and the result has no coins.
\<close>

lemma generate_treasure_missing_range:
  assumes "fetchData ''treasure.json'' resp = Inr data"
      and "treasure_type data (default_arg ''individual'' type_arg) = Some ranges"
      and "ranges (crRange cr) = None"
      and "\<not> (default_arg ''individual'' type_arg = ''hoard'' \<and> num_ge cr (Num 5))"
  shows "generate_treasure resp cr type_arg rnd
           = (Inr (TreasureResult cr (default_arg ''individual'' type_arg) [] []), 0)"
  using assms by (auto simp: generate_treasure_def or_empty_def treasure_items_def Let_def)

section \<open>generate_treasure: coins and items\<close>

lemma of_char_digit_char: "d < 10 \<Longrightarrow> (of_char (digit_char d) :: nat) = 48 + d"
  by (simp add: digit_char_def)

lemma digit_value_digit_char: "d < 10 \<Longrightarrow> digit_value (digit_char d) = Some d"
  by (simp add: digit_value_def of_char_digit_char)

lemma is_digit_digit_char: "d < 10 \<Longrightarrow> is_digit 10 (digit_char d)"
  by (simp add: is_digit_def digit_value_digit_char)

lemma digit_char_neq:
  assumes "d < 10"
  shows "digit_char d \<noteq> CHR ''d''" "digit_char d \<noteq> CHR ''-''" "digit_char d \<noteq> CHR ''+''"
    "digit_char d \<noteq> CHR ''x''" "digit_char d \<noteq> CHR ''X''" "\<not> is_ws (digit_char d)"
proof -
  have ne: "digit_char d \<noteq> c" if "(of_char c :: nat) < 48 \<or> 57 < (of_char c :: nat)" for c
    using that of_char_digit_char [OF assms] assms by auto
  show "digit_char d \<noteq> CHR ''d''" "digit_char d \<noteq> CHR ''-''" "digit_char d \<noteq> CHR ''+''"
    "digit_char d \<noteq> CHR ''x''" "digit_char d \<noteq> CHR ''X''"
    by (rule ne; simp)+
  show "\<not> is_ws (digit_char d)"
    unfolding is_ws_def using ne [of "CHR 0x09"] ne [of "CHR 0x0A"] ne [of "CHR 0x0B"]
      ne [of "CHR 0x0C"] ne [of "CHR 0x0D"] ne [of "CHR 0x20"]
    by simp
qed

lemma decimal_digits: "set (decimal n) \<subseteq> digit_chars"
proof (induction n rule: decimal.induct)
  case (1 n)
  show ?case
  proof (cases "n < 10")
    case True
    then show ?thesis by (subst decimal.simps) (simp add: digit_chars_def)
  next
    case False
    then show ?thesis
      using 1 by (subst decimal.simps) (simp add: digit_chars_def)
  qed
qed

lemma decimal_nonempty: "decimal n \<noteq> []"
  by (subst decimal.simps) simp

lemma digits_value_snoc:
  "digits_value r (ds @ [c]) = digits_value r ds * r + (case digit_value c of None \<Rightarrow> 0 | Some d \<Rightarrow> d)"
  by (simp add: digits_value_def)

lemma digits_value_decimal: "digits_value 10 (decimal n) = n"
proof (induction n rule: decimal.induct)
  case (1 n)
  show ?case
  proof (cases "n < 10")
    case True
    then show ?thesis
      by (subst decimal.simps) (simp add: digits_value_def digit_value_digit_char)
  next
    case False
    then have "digits_value 10 (decimal n) = digits_value 10 (decimal (n div 10)) * 10 + n mod 10"
      by (subst decimal.simps) (simp add: digits_value_snoc digit_value_digit_char)
    with 1 False show ?thesis by simp
  qed
qed

lemma digit_chars_facts:
  assumes "c \<in> digit_chars"
  shows "is_digit 10 c" "c \<noteq> CHR ''d''" "c \<noteq> CHR ''-''" "c \<noteq> CHR ''+''" "c \<noteq> CHR ''x''"
    "c \<noteq> CHR ''X''" "\<not> is_ws c"
proof -
  from assms obtain d where d: "d < 10" "c = digit_char d"
    by (auto simp: digit_chars_def)
  show "is_digit 10 c" "c \<noteq> CHR ''d''" "c \<noteq> CHR ''-''" "c \<noteq> CHR ''+''" "c \<noteq> CHR ''x''"
    "c \<noteq> CHR ''X''" "\<not> is_ws c"
    using is_digit_digit_char [OF d(1)] digit_char_neq [OF d(1)] by (simp_all add: d(2))
qed

lemma parseInt_digits:
  assumes digits: "set ds \<subseteq> digit_chars" and nonempty: "ds \<noteq> []"
  shows "parseInt (Some ds) = Num (of_nat (digits_value 10 ds))"
proof -
  obtain c cs where ds: "ds = c # cs" using nonempty by (cases ds) auto
  have c: "c \<in> digit_chars" using digits ds by simp
  have ws: "dropWhile is_ws ds = ds"
    using digit_chars_facts(7) [OF c] by (simp add: ds)
  have sign: "take (Suc 0) ds \<noteq> ''-''" "take (Suc 0) ds \<noteq> ''+''"
    using digit_chars_facts(3,4) [OF c] by (simp_all add: ds)
  have hex: "take 2 ds \<noteq> ''0x''" "take 2 ds \<noteq> ''0X''"
  proof -
    show "take 2 ds \<noteq> ''0x''"
    proof (cases cs)
      case Nil
      then show ?thesis by (simp add: ds)
    next
      case (Cons c' cs')
      then have "c' \<in> digit_chars" using digits ds by simp
      from digit_chars_facts(5) [OF this] show ?thesis by (simp add: ds Cons)
    qed
    show "take 2 ds \<noteq> ''0X''"
    proof (cases cs)
      case Nil
      then show ?thesis by (simp add: ds)
    next
      case (Cons c' cs')
      then have "c' \<in> digit_chars" using digits ds by simp
      from digit_chars_facts(6) [OF this] show ?thesis by (simp add: ds Cons)
    qed
  qed
  have all: "takeWhile (is_digit 10) ds = ds"
    using digits digit_chars_facts(1) by (auto intro: takeWhile_eq_all_conv [THEN iffD2])
  show ?thesis
    using nonempty by (simp add: parseInt_def to_string_def Let_def ws sign hex all)
qed

lemma parseInt_decimal: "parseInt (Some (decimal n)) = Num (of_nat n)"
  using parseInt_digits [OF decimal_digits decimal_nonempty, of n]
  by (simp add: digits_value_decimal)

lemma split_on_absent: "c \<notin> set xs \<Longrightarrow> split_on c xs = [xs]"
  by (induction xs) auto

lemma split_on_first: "c \<notin> set xs \<Longrightarrow> split_on c (xs @ c # ys) = xs # split_on c ys"
proof (induction xs)
  case Nil
  then show ?case by simp
next
  case (Cons x xs)
  then show ?case by auto
qed

lemma split_dice: "split_on CHR ''d'' (decimal a @ ''d'' @ decimal b) = [decimal a, decimal b]"
proof -
  have "CHR ''d'' \<notin> set (decimal n)" for n
    using decimal_digits [of n] digit_chars_facts(2) by auto
  then show ?thesis
    by (simp add: split_on_first split_on_absent)
qed

lemma roll_die_step:
  "roll_die rnd (Num d) i (Num t, p) = (Num (t + of_int \<lfloor>rnd p * d\<rfloor> + 1), Suc p)"
  by (simp add: roll_die_def add.assoc)

lemma fold_roll_die:
  "fold (roll_die rnd (Num (of_nat m))) js (Num t, p)
     = (Num (t + of_int (dice_total rnd p (length js) m)), p + length js)"
proof (induction js arbitrary: t p)
  case Nil
  then show ?case by (simp add: dice_total_def)
next
  case (Cons j js)
  have shift: "dice_total rnd p (Suc (length js)) m
                 = random_index (rnd p) m + 1 + dice_total rnd (Suc p) (length js) m"
    unfolding dice_total_def by (subst sum.lessThan_Suc_shift) simp
  have "fold (roll_die rnd (Num (of_nat m))) (j # js) (Num t, p)
          = fold (roll_die rnd (Num (of_nat m))) js
              (Num (t + of_int (random_index (rnd p) m) + 1), Suc p)"
    by (simp add: roll_die_step random_index_def)
  also have "\<dots> = (Num (t + of_int (random_index (rnd p) m) + 1
                        + of_int (dice_total rnd (Suc p) (length js) m)), Suc p + length js)"
    by (rule Cons.IH)
  finally show ?case
    by (simp add: shift)
qed

lemma roll_coin_dice:
  "roll_coin rnd p (decimal n @ ''d'' @ decimal m) k
     = (Num (of_int (dice_total rnd p n m) * k), p + n)"
proof -
  have rolls: "split_on CHR ''d'' (decimal n @ ''d'' @ decimal m) = [decimal n, decimal m]"
    by (rule split_dice)
  have "for_loop 0 (Num (of_nat n)) (roll_die rnd (Num (of_nat m))) (Num 0, p)
          = (Num (of_int (dice_total rnd p n m)), p + n)"
    using fold_roll_die [of rnd m "[0..<n]" 0 p] by (simp add: for_loop_fold)
  then show ?thesis
    unfolding roll_coin_def rolls by (simp add: elem_at_def parseInt_decimal)
qed

lemma dice_total_range:
  assumes "unit_draws rnd" "1 \<le> m"
  shows "int n \<le> dice_total rnd p n m \<and> dice_total rnd p n m \<le> int n * int m"
proof -
  have each: "1 \<le> random_index (rnd (p + i)) m + 1 \<and> random_index (rnd (p + i)) m + 1 \<le> int m" for i
  proof -
    from assms(1) have "0 \<le> rnd (p + i)" "rnd (p + i) < 1" by (simp_all add: unit_draws_def)
    from random_index_range [OF this, of m] assms(2) show ?thesis by simp
  qed
  have "(\<Sum>i<n. (1::int)) \<le> dice_total rnd p n m"
    unfolding dice_total_def by (rule sum_mono) (rule each [THEN conjunct1])
  moreover have "dice_total rnd p n m \<le> (\<Sum>i<n. int m)"
    unfolding dice_total_def by (rule sum_mono) (rule each [THEN conjunct2])
  ultimately show ?thesis by simp
qed

lemma roll_coins_other:
  assumes "roll_coins rnd entries (coins, p) = (Inr coins', p')"
      and "c \<notin> fst ` set entries"
  shows "map_of coins' c = map_of coins c"
  using assms
proof (induction entries arbitrary: coins p)
  case Nil
  then show ?case by simp
next
  case (Cons e entries)
  obtain coinType diceData where e: "e = (coinType, diceData)" by (cases e)
  from Cons.prems(2) have ne: "coinType \<noteq> c" and rest: "c \<notin> fst ` set entries"
    by (auto simp: e)
  show ?case
  proof (cases "coinType \<noteq> ''items''")
    case False
    with Cons.prems(1) have "roll_coins rnd entries (coins, p) = (Inr coins', p')"
      by (simp add: e)
    from Cons.IH [OF this rest] show ?thesis .
  next
    case True
    show ?thesis
    proof (cases diceData)
      case (Other v)
      with True Cons.prems(1) show ?thesis by (simp add: e)
    next
      case (Coin dice multiplier)
      obtain amount q where r: "roll_coin rnd p dice multiplier = (amount, q)"
        by (cases "roll_coin rnd p dice multiplier")
      with True Coin Cons.prems(1)
      have "roll_coins rnd entries (AList.update coinType amount coins, q) = (Inr coins', p')"
        by (simp add: e)
      from Cons.IH [OF this rest] ne show ?thesis
        by (simp add: AList.update_conv')
    qed
  qed
qed

lemma roll_coins_coin:
  assumes "roll_coins rnd entries (coins, p) = (Inr coins', p')"
      and "distinct (map fst entries)"
      and "(c, Coin dice k) \<in> set entries"
      and "c \<noteq> ''items''"
  shows "\<exists>q. map_of coins' c = Some (fst (roll_coin rnd q dice k))"
  using assms
proof (induction entries arbitrary: coins p)
  case Nil
  then show ?case by simp
next
  case (Cons e entries)
  obtain coinType diceData where e: "e = (coinType, diceData)" by (cases e)
  from Cons.prems(2) have fresh: "coinType \<notin> fst ` set entries" and d: "distinct (map fst entries)"
    by (simp_all add: e)
  show ?case
  proof (cases "(c, Coin dice k) \<in> set entries")
    case True
    show ?thesis
    proof (cases "coinType \<noteq> ''items''")
      case False
      with Cons.prems(1) have "roll_coins rnd entries (coins, p) = (Inr coins', p')"
        by (simp add: e)
      from Cons.IH [OF this d True Cons.prems(4)] show ?thesis .
    next
      case items: True
      show ?thesis
      proof (cases diceData)
        case (Other v)
        with items Cons.prems(1) show ?thesis by (simp add: e)
      next
        case (Coin dice' multiplier)
        obtain amount q where r: "roll_coin rnd p dice' multiplier = (amount, q)"
          by (cases "roll_coin rnd p dice' multiplier")
        with items Coin Cons.prems(1)
        have "roll_coins rnd entries (AList.update coinType amount coins, q) = (Inr coins', p')"
          by (simp add: e)
        from Cons.IH [OF this d True Cons.prems(4)] show ?thesis .
      qed
    qed
  next
    case False
    with Cons.prems(3) have here: "coinType = c" "diceData = Coin dice k"
      by (simp_all add: e)
    obtain amount q where r: "roll_coin rnd p dice k = (amount, q)"
      by (cases "roll_coin rnd p dice k")
    with here Cons.prems(1,4)
    have run: "roll_coins rnd entries (AList.update c amount coins, q) = (Inr coins', p')"
      by (simp add: e)
    from fresh here have "c \<notin> fst ` set entries" by simp
    from roll_coins_other [OF run this] have "map_of coins' c = Some amount"
      by (simp add: AList.update_conv')
    with r show ?thesis by (metis fst_conv)
  qed
qed

lemma generate_treasure_result:
  assumes "generate_treasure resp cr type_arg rnd = (Inr (TreasureResult cr' ty coins its), n)"
  shows "\<exists>data ranges p.
           fetchData ''treasure.json'' resp = Inr data
           \<and> ty = default_arg ''individual'' type_arg \<and> cr' = cr
           \<and> treasure_type data ty = Some ranges
           \<and> roll_coins rnd (or_empty (ranges (crRange cr))) ([], 0) = (Inr coins, p)
           \<and> treasure_items rnd p (items data) cr ty = (Inr its, n)"
  using assms
  by (auto simp: generate_treasure_def Let_def split: sum.splits option.splits prod.splits)

lemma decimal_2d6: "decimal 2 @ ''d'' @ decimal 6 = ''2d6''"
  by code_simp

text \<open>
  C7. For a coin entry with the dice string \<open>NdM\<close> (decimal numerals \<open>N\<close> and \<open>M\<close>,
  \<open>M\<close> at least 1) and a multiplier \<open>k\<close> that is not negative, the value of the coin
  kind is \<open>k\<close> times the sum of \<open>N\<close> draws, each the floor of \<open>M\<close> times a value of
  \<open>Math.random()\<close> plus 1 and so between 1 and \<open>M\<close>; it lies between \<open>N * k\<close> and
  \<open>N * M * k\<close>. This is the value generate_treasure stores under the coin kind in
  every result it returns. For 2d6 and the multiplier 10 the value lies between 20
  and 120.
\<close>

theorem coin_value_in_range:
  assumes draws: "unit_draws rnd" and sides: "1 \<le> m" and mult: "0 \<le> k"
  shows "(\<exists>v. roll_coin rnd p (decimal n @ ''d'' @ decimal m) k = (Num v, p + n)
              \<and> v = of_int (dice_total rnd p n m) * k
              \<and> of_nat n * k \<le> v \<and> v \<le> of_nat n * of_nat m * k)
         \<and> (\<forall>i<n. 1 \<le> random_index (rnd (p + i)) m + 1
                    \<and> random_index (rnd (p + i)) m + 1 \<le> int m)
         \<and> (generate_treasure resp cr type_arg rnd = (Inr (TreasureResult cr' ty coins its), q)
            \<and> fetchData ''treasure.json'' resp = Inr data
            \<and> treasure_type data ty = Some ranges \<and> ranges (crRange cr) = Some entries
            \<and> distinct (map fst entries)
            \<and> (coinType, Coin (decimal n @ ''d'' @ decimal m) k) \<in> set entries
            \<and> coinType \<noteq> ''items''
            \<longrightarrow> (\<exists>v. map_of coins coinType = Some (Num v)
                      \<and> of_nat n * k \<le> v \<and> v \<le> of_nat n * of_nat m * k))
         \<and> (\<exists>v. roll_coin rnd p ''2d6'' 10 = (Num v, p + 2) \<and> 20 \<le> v \<and> v \<le> 120)"
proof -
  have range: "of_nat n' * k' \<le> of_int (dice_total rnd p' n' m') * k'
           \<and> of_int (dice_total rnd p' n' m') * k' \<le> of_nat n' * of_nat m' * k'"
    if "1 \<le> m'" "0 \<le> k'" for p' n' m' and k' :: rat
  proof -
    from dice_total_range [OF draws that(1), of n' p']
    have i: "int n' \<le> dice_total rnd p' n' m'" "dice_total rnd p' n' m' \<le> int n' * int m'"
      by simp_all
    have "(of_int (int n') :: rat) \<le> of_int (dice_total rnd p' n' m')"
      using i(1) by (rule of_int_le_iff [THEN iffD2])
    then have lo: "(of_nat n' :: rat) \<le> of_int (dice_total rnd p' n' m')"
      by simp
    have "(of_int (dice_total rnd p' n' m') :: rat) \<le> of_int (int n' * int m')"
      using i(2) by (rule of_int_le_iff [THEN iffD2])
    then have hi: "(of_int (dice_total rnd p' n' m') :: rat) \<le> of_nat n' * of_nat m'"
      by simp
    from lo hi show ?thesis using that(2) by (simp add: mult_right_mono)
  qed
  have a: "\<exists>v. roll_coin rnd p (decimal n @ ''d'' @ decimal m) k = (Num v, p + n)
              \<and> v = of_int (dice_total rnd p n m) * k
              \<and> of_nat n * k \<le> v \<and> v \<le> of_nat n * of_nat m * k"
    unfolding roll_coin_dice using range [OF sides mult, of n p] by simp
  have b: "\<forall>i<n. 1 \<le> random_index (rnd (p + i)) m + 1
                    \<and> random_index (rnd (p + i)) m + 1 \<le> int m"
  proof (intro allI impI)
    fix i
    from draws have "0 \<le> rnd (p + i)" "rnd (p + i) < 1" by (simp_all add: unit_draws_def)
    from random_index_range [OF this, of m] sides
    show "1 \<le> random_index (rnd (p + i)) m + 1 \<and> random_index (rnd (p + i)) m + 1 \<le> int m"
      by simp
  qed
  have c: "\<exists>v. map_of coins coinType = Some (Num v)
                      \<and> of_nat n * k \<le> v \<and> v \<le> of_nat n * of_nat m * k"
    if run: "generate_treasure resp cr type_arg rnd = (Inr (TreasureResult cr' ty coins its), q)"
      and fetched: "fetchData ''treasure.json'' resp = Inr data"
      and ty: "treasure_type data ty = Some ranges"
      and entries: "ranges (crRange cr) = Some entries"
      and keys: "distinct (map fst entries)"
      and entry: "(coinType, Coin (decimal n @ ''d'' @ decimal m) k) \<in> set entries"
      and coin: "coinType \<noteq> ''items''"
  proof -
    from generate_treasure_result [OF run] fetched ty entries
    obtain p0 where "roll_coins rnd entries ([], 0) = (Inr coins, p0)"
      by (auto simp: or_empty_def)
    from roll_coins_coin [OF this keys entry coin]
    obtain q' where "map_of coins coinType
        = Some (fst (roll_coin rnd q' (decimal n @ ''d'' @ decimal m) k))" ..
    then show ?thesis
      unfolding roll_coin_dice using range [OF sides mult, of n q'] by simp
  qed
  have d: "\<exists>v. roll_coin rnd p ''2d6'' 10 = (Num v, p + 2) \<and> 20 \<le> v \<and> v \<le> 120"
    using range [of 6 10 2 p] roll_coin_dice [of rnd p 2 6 10, unfolded decimal_2d6] by simp
  from a b c d show ?thesis by blast
qed

lemma treasure_example_run:
  "generate_treasure (Response True ''OK'' (Some treasure_example)) (Num 7) None (\<lambda>_. 1 / 2)
     = (Inr (TreasureResult (Num 7) ''individual'' [(''sp'', Num 160), (''gp'', Num 80)] []), 6)"
  by code_simp

theorem coin_value_in_range_witness:
  "unit_draws (\<lambda>_. 1 / 2) \<and> (1::nat) \<le> 6 \<and> (0::rat) \<le> 10
   \<and> roll_coin (\<lambda>_. 1 / 2) 0 ''2d6'' 10 = (Num 80, 2)
   \<and> generate_treasure (Response True ''OK'' (Some treasure_example)) (Num 7) None (\<lambda>_. 1 / 2)
       = (Inr (TreasureResult (Num 7) ''individual'' [(''sp'', Num 160), (''gp'', Num 80)] []), 6)
   \<and> (20::rat) \<le> 80 \<and> (80::rat) \<le> 120"
proof -
  have u: "unit_draws (\<lambda>_. 1 / 2)" by (simp add: unit_draws_def)
  have m: "(1::nat) \<le> 6" by simp
  have k: "(0::rat) \<le> 10" by simp
  have r: "roll_coin (\<lambda>_. 1 / 2) 0 ''2d6'' 10 = (Num 80, 2)" by code_simp
  from coin_value_in_range [OF u m k, of 0]
  obtain v where "roll_coin (\<lambda>_. 1 / 2) 0 ''2d6'' 10 = (Num v, 0 + 2)" "20 \<le> v" "v \<le> 120"
    by blast
  with r have "(20::rat) \<le> 80 \<and> (80::rat) \<le> 120" by simp
  with u m k r show ?thesis by (simp add: treasure_example_run)
qed

lemma roll_coins_total:
  assumes "coin_entries entries"
  shows "\<exists>coins' p'. roll_coins rnd entries (coins, p) = (Inr coins', p')"
  using assms
proof (induction entries arbitrary: coins p)
  case Nil
  then show ?case by simp
next
  case (Cons e entries)
  obtain coinType diceData where e: "e = (coinType, diceData)" by (cases e)
  from Cons.prems have rest: "coin_entries entries"
    and here: "coinType = ''items'' \<or> (\<exists>dice k. diceData = Coin dice k)"
    by (auto simp: coin_entries_def e split: bucket_field.splits)
  show ?case
  proof (cases "coinType = ''items''")
    case True
    then show ?thesis using Cons.IH [OF rest] by (simp add: e)
  next
    case False
    with here obtain dice k where c: "diceData = Coin dice k" by blast
    obtain amount q where "roll_coin rnd p dice k = (amount, q)"
      by (cases "roll_coin rnd p dice k")
    then show ?thesis
      using False c Cons.IH [OF rest, of "AList.update coinType amount coins" q] by (simp add: e)
  qed
qed

lemma push_item_step:
  "push_item rnd pool i (treasureItems, p)
     = (treasureItems @ [or_undefined (pick pool (rnd p))], Suc p)"
  by (simp add: push_item_def)

lemma fold_push_item:
  "fold (push_item rnd pool) js (acc, p)
     = (acc @ map (\<lambda>i. or_undefined (pick pool (rnd (p + i)))) [0..<length js], p + length js)"
proof (induction js arbitrary: acc p)
  case Nil
  then show ?case by simp
next
  case (Cons j js)
  have "map (\<lambda>i. or_undefined (pick pool (rnd (p + i)))) [0..<Suc (length js)]
          = or_undefined (pick pool (rnd p))
            # map (\<lambda>i. or_undefined (pick pool (rnd (Suc p + i)))) [0..<length js]"
    by (simp add: upt_conv_Cons map_Suc_upt [symmetric] del: upt_Suc)
  then show ?case
    by (simp add: push_item_step Cons.IH)
qed

lemma numItems_value:
  "num_add (num_floor (num_mul (Num u) (Num 3))) (Num 1) = Num (of_int (random_index u 3 + 1))"
  by (simp add: random_index_def)

lemma iterations_int [simp]: "iterations (Num (of_int z)) = nat z"
  by (simp add: iterations_def)

lemma treasure_items_hoard:
  assumes "ty = ''hoard''" "num_ge cr (Num 5)" "its = Some pools"
      and "(if num_ge cr (Num 11) then magic_major pools else magic_medium pools) = Some pool"
  shows "treasure_items rnd p its cr ty
           = (Inr (map (\<lambda>i. or_undefined (pick pool (rnd (Suc p + i))))
                     [0..<nat (random_index (rnd p) 3 + 1)]),
              Suc p + nat (random_index (rnd p) 3 + 1))"
proof -
  have loop: "for_loop 0 (Num (of_int (random_index (rnd p) 3 + 1))) (push_item rnd pool) ([], Suc p)
         = (map (\<lambda>i. or_undefined (pick pool (rnd (Suc p + i))))
                     [0..<nat (random_index (rnd p) 3 + 1)],
              Suc p + nat (random_index (rnd p) 3 + 1))"
    unfolding for_loop_fold iterations_int
    using fold_push_item [of rnd pool "[0..<nat (random_index (rnd p) 3 + 1)]" "[]" "Suc p"]
    by simp
  show ?thesis
    unfolding treasure_items_def Let_def assms(3) option.case numItems_value assms(4) loop
    using assms(1,2) by simp
qed

lemma treasure_items_none:
  assumes "\<not> (ty = ''hoard'' \<and> num_ge cr (Num 5))"
  shows "treasure_items rnd p its cr ty = (Inr [], p)"
  using assms by (auto simp: treasure_items_def)

text \<open>
  C2. When treasure.json is fetched, has the treasure type and its CR range has coin
  entries only, generate_treasure returns a result. Its items are empty unless the type
  is hoard and \<open>cr\<close> is at least 5. In that case, with the pool \<open>magic_major\<close> for
  \<open>cr\<close> at least 11 and \<open>magic_medium\<close> otherwise, the next draw gives the number
  \<open>k\<close> of items, and the \<open>k\<close> draws after it each pick one item of the pool (so an
  item can come twice); \<open>k\<close> is 1, 2 or 3, each for one third of the values of
  \<open>Math.random()\<close>.
\<close>

theorem generate_treasure_items:
  assumes fetched: "fetchData ''treasure.json'' resp = Inr data"
      and ty: "ty = default_arg ''individual'' type_arg"
      and present: "treasure_type data ty = Some ranges"
      and coins_ok: "coin_entries (or_empty (ranges (crRange cr)))"
  shows "\<exists>coins p.
     roll_coins rnd (or_empty (ranges (crRange cr))) ([], 0) = (Inr coins, p)
     \<and> (\<not> (ty = ''hoard'' \<and> num_ge cr (Num 5))
        \<longrightarrow> generate_treasure resp cr type_arg rnd = (Inr (TreasureResult cr ty coins []), p))
     \<and> (ty = ''hoard'' \<and> num_ge cr (Num 5) \<longrightarrow>
         (\<forall>pools pool.
            items data = Some pools
            \<and> (if num_ge cr (Num 11) then magic_major pools else magic_medium pools) = Some pool
            \<longrightarrow> (\<exists>k its.
                  k = nat (random_index (rnd p) 3 + 1)
                  \<and> its = map (\<lambda>i. or_undefined (pick pool (rnd (Suc p + i)))) [0..<k]
                  \<and> generate_treasure resp cr type_arg rnd
                      = (Inr (TreasureResult cr ty coins its), Suc p + k)
                  \<and> (unit_draws rnd \<longrightarrow>
                       1 \<le> k \<and> k \<le> 3 \<and> its \<noteq> []
                       \<and> (\<forall>j. k = Suc j \<longleftrightarrow>
                              of_nat j / 3 \<le> rnd p \<and> rnd p < (of_nat j + 1) / 3)
                       \<and> (pool \<noteq> [] \<longrightarrow> set its \<subseteq> set pool)))))"
proof -
  from roll_coins_total [OF coins_ok] obtain coins p where
    rolled: "roll_coins rnd (or_empty (ranges (crRange cr))) ([], 0) = (Inr coins, p)"
    by blast
  have none: "generate_treasure resp cr type_arg rnd = (Inr (TreasureResult cr ty coins []), p)"
    if "\<not> (ty = ''hoard'' \<and> num_ge cr (Num 5))"
    using present rolled treasure_items_none [OF that]
    by (simp add: generate_treasure_def fetched ty [symmetric])
  have some: "\<exists>k its.
                  k = nat (random_index (rnd p) 3 + 1)
                  \<and> its = map (\<lambda>i. or_undefined (pick pool (rnd (Suc p + i)))) [0..<k]
                  \<and> generate_treasure resp cr type_arg rnd
                      = (Inr (TreasureResult cr ty coins its), Suc p + k)
                  \<and> (unit_draws rnd \<longrightarrow>
                       1 \<le> k \<and> k \<le> 3 \<and> its \<noteq> []
                       \<and> (\<forall>j. k = Suc j \<longleftrightarrow>
                              of_nat j / 3 \<le> rnd p \<and> rnd p < (of_nat j + 1) / 3)
                       \<and> (pool \<noteq> [] \<longrightarrow> set its \<subseteq> set pool))"
    if hoard: "ty = ''hoard'' \<and> num_ge cr (Num 5)"
      and pools: "items data = Some pools"
      and pool: "(if num_ge cr (Num 11) then magic_major pools else magic_medium pools) = Some pool"
    for pools pool
  proof -
    define k where "k = nat (random_index (rnd p) 3 + 1)"
    define its where "its = map (\<lambda>i. or_undefined (pick pool (rnd (Suc p + i)))) [0..<k]"
    from hoard have h: "ty = ''hoard''" "num_ge cr (Num 5)" by simp_all
    have run: "generate_treasure resp cr type_arg rnd
                 = (Inr (TreasureResult cr ty coins its), Suc p + k)"
      using present rolled treasure_items_hoard [OF h pools pool, of rnd p]
      by (simp add: generate_treasure_def fetched ty [symmetric] its_def k_def)
    have unit: "1 \<le> k \<and> k \<le> 3 \<and> its \<noteq> []
                       \<and> (\<forall>j. k = Suc j \<longleftrightarrow>
                              of_nat j / 3 \<le> rnd p \<and> rnd p < (of_nat j + 1) / 3)
                       \<and> (pool \<noteq> [] \<longrightarrow> set its \<subseteq> set pool)"
      if draws: "unit_draws rnd"
    proof -
      from draws have u: "0 \<le> rnd i" "rnd i < 1" for i by (simp_all add: unit_draws_def)
      from random_index_range [OF u, of 3 p]
      have r: "0 \<le> random_index (rnd p) 3" "random_index (rnd p) 3 < 3" by simp_all
      then have k13: "1 \<le> k" "k \<le> 3" by (simp_all add: k_def)
      then have ne: "its \<noteq> []" by (simp add: its_def)
      have uni: "k = Suc j \<longleftrightarrow> of_nat j / 3 \<le> rnd p \<and> rnd p < (of_nat j + 1) / 3" for j
      proof -
        have "k = Suc j \<longleftrightarrow> random_index (rnd p) 3 = int j"
          using r by (auto simp: k_def)
        then show ?thesis
          using random_index_uniform [of 3 "rnd p" j] by simp
      qed
      have sub: "set its \<subseteq> set pool" if "pool \<noteq> []"
      proof
        fix x assume "x \<in> set its"
        then obtain i where "x = or_undefined (pick pool (rnd (Suc p + i)))"
          by (auto simp: its_def)
        moreover from pick_Some [OF u(1) [of "Suc p + i"] u(2) [of "Suc p + i"] that]
        obtain y where "pick pool (rnd (Suc p + i)) = Some y" "y \<in> set pool" by blast
        ultimately show "x \<in> set pool" by (simp add: or_undefined_def)
      qed
      from k13 ne uni sub show ?thesis by blast
    qed
    from run unit show ?thesis unfolding k_def its_def by blast
  qed
  from rolled none some show ?thesis by blast
qed

lemma treasure_example_hoard_run:
  "generate_treasure (Response True ''OK'' (Some treasure_example)) (Num 7) (Some ''hoard'')
     (\<lambda>_. 1 / 2)
     = (Inr (TreasureResult (Num 7) ''hoard'' [(''gp'', Num 80)]
               [Str ''Bag of holding'', Str ''Bag of holding'']), 5)"
  by code_simp

lemma treasure_example_hoard_low_run:
  "generate_treasure (Response True ''OK'' (Some treasure_example)) (Num 4) (Some ''hoard'')
     (\<lambda>_. 1 / 2)
     = (Inr (TreasureResult (Num 4) ''hoard'' [(''cp'', Num 2400)] []), 6)"
  by code_simp

theorem generate_treasure_items_witness:
  "fetchData ''treasure.json'' (Response True ''OK'' (Some treasure_example)) = Inr treasure_example
   \<and> treasure_type treasure_example (default_arg ''individual'' (Some ''hoard''))
       = by_type treasure_example ''hoard''
   \<and> by_type treasure_example ''hoard'' \<noteq> None
   \<and> coin_entries [(''gp'', Coin ''2d6'' 10)]
   \<and> unit_draws (\<lambda>_. 1 / 2)
   \<and> generate_treasure (Response True ''OK'' (Some treasure_example)) (Num 7) (Some ''hoard'')
        (\<lambda>_. 1 / 2)
       = (Inr (TreasureResult (Num 7) ''hoard'' [(''gp'', Num 80)]
               [Str ''Bag of holding'', Str ''Bag of holding'']), 5)
   \<and> generate_treasure (Response True ''OK'' (Some treasure_example)) (Num 4) (Some ''hoard'')
        (\<lambda>_. 1 / 2)
       = (Inr (TreasureResult (Num 4) ''hoard'' [(''cp'', Num 2400)] []), 6)"
proof -
  define ranges where "ranges = [''cr0-4'' \<mapsto> [(''cp'', Coin ''6d6'' 100), (''items'', Other (Number (Num 0)))],
                        ''cr5-10'' \<mapsto> [(''gp'', Coin ''2d6'' 10)]]"
  have f: "fetchData ''treasure.json'' (Response True ''OK'' (Some treasure_example)) = Inr treasure_example"
    by (simp add: fetchData_def)
  have t: "''hoard'' = default_arg ''individual'' (Some ''hoard'')"
    by (simp add: default_arg_def)
  have p: "treasure_type treasure_example ''hoard'' = Some ranges"
    by (simp add: treasure_type_def treasure_example_def ranges_def)
  have c: "coin_entries (or_empty (ranges (crRange (Num 7))))"
    by (simp add: coin_entries_def ranges_def crRange_def or_empty_def)
  have c': "coin_entries [(''gp'', Coin ''2d6'' 10)]"
    by (simp add: coin_entries_def)
  have u: "unit_draws (\<lambda>_. 1 / 2)" by (simp add: unit_draws_def)
  from generate_treasure_items [OF f t p c, of "\<lambda>_. 1 / 2"]
  obtain coins q where "roll_coins (\<lambda>_. 1 / 2) (or_empty (ranges (crRange (Num 7)))) ([], 0)
      = (Inr coins, q)"
    by blast
  then show ?thesis
    using f p c' u
    by (simp add: treasure_example_hoard_run treasure_example_hoard_low_run default_arg_def
        treasure_type_def)
qed

section \<open>The random source decides the outcome\<close>

lemma agree_le: "agree n rnd rnd' \<Longrightarrow> m \<le> n \<Longrightarrow> agree m rnd rnd'"
  by (simp add: agree_def)

lemma agree_at: "agree n rnd rnd' \<Longrightarrow> i < n \<Longrightarrow> rnd' i = rnd i"
  by (simp add: agree_def)

text \<open>
  A loop whose body makes one draw in each run consumes as many draws as it runs, and
  a source that agrees on them gives the same final state.
\<close>

lemma fold_draws_agree:
  assumes body: "\<And>i x p. body i (x, p) = (g (rnd p) x, Suc p)"
      and body': "\<And>i x p. body' i (x, p) = (g (rnd' p) x, Suc p)"
      and same: "agree (p + length js) rnd rnd'"
  shows "fold body' js (x, p) = fold body js (x, p)
         \<and> snd (fold body js (x, p)) = p + length js"
  using same
proof (induction js arbitrary: x p)
  case Nil
  then show ?case by simp
next
  case (Cons j js)
  from Cons.prems have here: "rnd' p = rnd p" and rest: "agree (Suc p + length js) rnd rnd'"
    by (simp_all add: agree_def)
  from Cons.IH [OF rest, of "g (rnd p) x"] show ?case
    by (simp add: body body' here)
qed

lemma fold_draws_length:
  assumes body: "\<And>i x p. body i (x, p) = (g p x, Suc p)"
  shows "snd (fold body js (x, p)) = p + length js"
  by (induction js arbitrary: x p) (simp_all add: body)

lemma select_trait_draw:
  "select_trait rnd pool i (x, p)
     = (if pick pool (rnd p) \<notin> set x then x @ [pick pool (rnd p)] else x, Suc p)"
  by (simp add: select_trait_def Let_def)

lemma roll_die_draw:
  "roll_die rnd diceSize i (x, p)
     = (num_add x (num_add (num_floor (num_mul (Num (rnd p)) diceSize)) (Num 1)), Suc p)"
  by (simp add: roll_die_def)

lemma push_item_draw:
  "push_item rnd pool i (x, p) = (x @ [or_undefined (pick pool (rnd p))], Suc p)"
  by (simp add: push_item_def)

lemma roll_coin_agree:
  assumes "agree (snd (roll_coin rnd p dice k)) rnd rnd'"
  shows "roll_coin rnd' p dice k = roll_coin rnd p dice k \<and> p \<le> snd (roll_coin rnd p dice k)"
proof -
  define rolls where "rolls = split_on CHR ''d'' dice"
  define numDice where "numDice = parseInt (elem_at rolls 0)"
  define diceSize where "diceSize = parseInt (elem_at rolls 1)"
  define js where "js = [0..<iterations numDice]"
  have rc: "roll_coin r p dice k
              = (num_mul (fst (fold (roll_die r diceSize) js (Num 0, p))) (Num k),
                 snd (fold (roll_die r diceSize) js (Num 0, p)))" for r
    by (simp add: roll_coin_def Let_def for_loop_fold rolls_def numDice_def diceSize_def js_def
        split: prod.splits)
  have len: "snd (fold (roll_die rnd diceSize) js (Num 0, p)) = p + length js"
    by (rule fold_draws_length [where g = "\<lambda>p x. num_add x
          (num_add (num_floor (num_mul (Num (rnd p)) diceSize)) (Num 1))", OF roll_die_draw])
  from assms have "agree (p + length js) rnd rnd'"
    by (simp add: rc len)
  from fold_draws_agree [where body = "roll_die rnd diceSize" and body' = "roll_die rnd' diceSize",
      OF roll_die_draw roll_die_draw this]
  show ?thesis by (simp add: rc)
qed

lemma roll_coins_agree:
  assumes "agree (snd (roll_coins rnd entries (coins, p))) rnd rnd'"
  shows "roll_coins rnd' entries (coins, p) = roll_coins rnd entries (coins, p)
         \<and> p \<le> snd (roll_coins rnd entries (coins, p))"
  using assms
proof (induction entries arbitrary: coins p)
  case Nil
  then show ?case by simp
next
  case (Cons e entries)
  obtain coinType diceData where e: "e = (coinType, diceData)" by (cases e)
  show ?case
  proof (cases "coinType \<noteq> ''items''")
    case False
    with Cons show ?thesis by (simp add: e)
  next
    case True
    show ?thesis
    proof (cases diceData)
      case (Other v)
      with True show ?thesis by (simp add: e)
    next
      case (Coin dice k)
      obtain amount q where r: "roll_coin rnd p dice k = (amount, q)"
        by (cases "roll_coin rnd p dice k")
      have step: "roll_coins rnd (e # entries) (coins, p)
                    = roll_coins rnd entries (AList.update coinType amount coins, q)"
        using True Coin r by (simp add: e)
      with Cons.prems have a: "agree (snd (roll_coins rnd entries
                                  (AList.update coinType amount coins, q))) rnd rnd'"
        by simp
      from Cons.IH [OF a] have
        ih: "roll_coins rnd' entries (AList.update coinType amount coins, q)
               = roll_coins rnd entries (AList.update coinType amount coins, q)"
        and mono: "q \<le> snd (roll_coins rnd entries (AList.update coinType amount coins, q))"
        by simp_all
      from agree_le [OF a mono] r have "agree (snd (roll_coin rnd p dice k)) rnd rnd'"
        by simp
      from roll_coin_agree [OF this] r have r': "roll_coin rnd' p dice k = (amount, q)" and pq: "p \<le> q"
        by simp_all
      have "roll_coins rnd' (e # entries) (coins, p)
              = roll_coins rnd' entries (AList.update coinType amount coins, q)"
        using True Coin r' by (simp add: e)
      with ih step mono pq show ?thesis by simp
    qed
  qed
qed

lemma treasure_items_agree:
  assumes "agree (snd (treasure_items rnd p its cr ty)) rnd rnd'"
  shows "treasure_items rnd' p its cr ty = treasure_items rnd p its cr ty"
proof (cases "ty = ''hoard'' \<and> num_ge cr (Num 5)")
  case False
  then show ?thesis by (auto simp: treasure_items_def)
next
  case hoard: True
  show ?thesis
  proof (cases its)
    case None
    with hoard show ?thesis by (simp add: treasure_items_def)
  next
    case (Some pools)
    define itemPool where
      "itemPool = (if num_ge cr (Num 11) then magic_major pools else magic_medium pools)"
    define numItems where
      "numItems r = num_add (num_floor (num_mul (Num (r p)) (Num 3))) (Num 1)" for r :: random
    have ti: "treasure_items r p its cr ty =
        (case itemPool of
           None \<Rightarrow>
             if num_lt (Num 0) (numItems r) then (Inl TypeError, Suc (Suc p)) else (Inr [], Suc p)
         | Some pool \<Rightarrow>
             (Inr (fst (fold (push_item r pool) [0..<iterations (numItems r)] ([], Suc p))),
              snd (fold (push_item r pool) [0..<iterations (numItems r)] ([], Suc p))))" for r
      using hoard Some
      by (simp add: treasure_items_def Let_def itemPool_def numItems_def for_loop_fold
          split: option.splits prod.splits)
    show ?thesis
    proof (cases itemPool)
      case None
      with assms have "rnd' p = rnd p" by (auto simp: ti agree_def split: if_splits)
      then have "numItems rnd' = numItems rnd" by (simp add: numItems_def)
      with None show ?thesis by (simp add: ti)
    next
      case pool: (Some pool)
      define js where "js = [0..<iterations (numItems rnd)]"
      have len: "snd (fold (push_item rnd pool) js ([], Suc p)) = Suc p + length js"
        by (rule fold_draws_length [where g = "\<lambda>p x. x @ [or_undefined (pick pool (rnd p))]",
              OF push_item_draw])
      from assms have a: "agree (Suc p + length js) rnd rnd'"
        by (simp add: ti pool len [unfolded js_def] js_def)
      then have "rnd' p = rnd p" by (simp add: agree_def)
      then have n: "numItems rnd' = numItems rnd" by (simp add: numItems_def)
      from fold_draws_agree [where body = "push_item rnd pool" and body' = "push_item rnd' pool",
          OF push_item_draw push_item_draw a]
      have "fold (push_item rnd' pool) js ([], Suc p) = fold (push_item rnd pool) js ([], Suc p)"
        by simp
      then show ?thesis by (simp add: ti pool n js_def)
    qed
  qed
qed

lemma treasure_items_mono: "p \<le> snd (treasure_items rnd p its cr ty)"
proof (cases "ty = ''hoard'' \<and> num_ge cr (Num 5)")
  case False
  then show ?thesis by (auto simp: treasure_items_def)
next
  case hoard: True
  show ?thesis
  proof (cases its)
    case None
    with hoard show ?thesis by (simp add: treasure_items_def)
  next
    case (Some pools)
    define itemPool where
      "itemPool = (if num_ge cr (Num 11) then magic_major pools else magic_medium pools)"
    define numItems where
      "numItems = num_add (num_floor (num_mul (Num (rnd p)) (Num 3))) (Num 1)"
    have ti: "treasure_items rnd p its cr ty =
        (case itemPool of
           None \<Rightarrow>
             if num_lt (Num 0) numItems then (Inl TypeError, Suc (Suc p)) else (Inr [], Suc p)
         | Some pool \<Rightarrow>
             (Inr (fst (fold (push_item rnd pool) [0..<iterations numItems] ([], Suc p))),
              snd (fold (push_item rnd pool) [0..<iterations numItems] ([], Suc p))))"
      using hoard Some
      by (simp add: treasure_items_def Let_def itemPool_def numItems_def for_loop_fold
          split: option.splits prod.splits)
    show ?thesis
    proof (cases itemPool)
      case None
      then show ?thesis by (simp add: ti)
    next
      case (Some pool)
      then show ?thesis
        by (simp add: ti fold_draws_length [where body = "push_item rnd pool"
              and g = "\<lambda>p x. x @ [or_undefined (pick pool (rnd p))]", OF push_item_draw])
    qed
  qed
qed

lemma generate_encounter_agree:
  assumes "agree (snd (generate_encounter resp level environment difficulty rnd)) rnd rnd'"
  shows "generate_encounter resp level environment difficulty rnd'
           = generate_encounter resp level environment difficulty rnd"
  using assms
  by (cases "fetchData ''encounters.json'' resp")
    (auto simp: generate_encounter_def Let_def agree_def split: if_splits)

lemma generate_npc_name_agree:
  assumes "agree (snd (generate_npc_name resp race gender rnd)) rnd rnd'"
  shows "generate_npc_name resp race gender rnd' = generate_npc_name resp race gender rnd"
  using assms
  by (cases "fetchData ''names.json'' resp")
    (auto simp: generate_npc_name_def Let_def agree_def split: if_splits)

lemma generate_location_name_agree:
  assumes "agree (snd (generate_location_name resp ty rnd)) rnd rnd'"
  shows "generate_location_name resp ty rnd' = generate_location_name resp ty rnd"
  using assms
  by (cases "fetchData ''locations.json'' resp")
    (auto simp: generate_location_name_def Let_def agree_def split: option.splits)

lemma generate_personality_agree:
  assumes "agree (snd (generate_personality resp count rnd)) rnd rnd'"
  shows "generate_personality resp count rnd' = generate_personality resp count rnd"
proof (cases "fetchData ''traits.json'' resp")
  case (Inl e)
  then show ?thesis by (simp add: generate_personality_def)
next
  case (Inr data)
  define js where "js = [0..<iterations (num_min (default_arg (Num 4) count)
                                (Num (of_nat (length (allTraits data)))))]"
  have gp: "generate_personality resp count r
              = (Inr (PersonalityResult (fst (fold (select_trait r (allTraits data)) js ([], 0)))),
                 snd (fold (select_trait r (allTraits data)) js ([], 0)))" for r
    by (simp add: generate_personality_fold [OF Inr] js_def split: prod.splits)
  have len: "snd (fold (select_trait rnd (allTraits data)) js ([], 0)) = 0 + length js"
    by (rule fold_draws_length [where g = "\<lambda>p x. if pick (allTraits data) (rnd p) \<notin> set x
          then x @ [pick (allTraits data) (rnd p)] else x", OF select_trait_draw])
  from assms have "agree (0 + length js) rnd rnd'"
    by (simp add: gp len)
  from fold_draws_agree [where body = "select_trait rnd (allTraits data)"
      and body' = "select_trait rnd' (allTraits data)", OF select_trait_draw select_trait_draw this]
  show ?thesis by (simp add: gp)
qed

lemma generate_treasure_agree:
  assumes "agree (snd (generate_treasure resp cr type_arg rnd)) rnd rnd'"
  shows "generate_treasure resp cr type_arg rnd' = generate_treasure resp cr type_arg rnd"
proof (cases "fetchData ''treasure.json'' resp")
  case (Inl e)
  then show ?thesis by (simp add: generate_treasure_def)
next
  case (Inr data)
  define ty where "ty = default_arg ''individual'' type_arg"
  show ?thesis
  proof (cases "treasure_type data ty")
    case None
    with Inr show ?thesis by (simp add: generate_treasure_def ty_def)
  next
    case (Some ranges)
    define entries where "entries = or_empty (ranges (crRange cr))"
    have gt: "generate_treasure resp cr type_arg r =
        (case roll_coins r entries ([], 0) of
           (Inl e, p) \<Rightarrow> (Inl e, p)
         | (Inr coins, p) \<Rightarrow>
             (case treasure_items r p (items data) cr ty of
                (Inl e, p') \<Rightarrow> (Inl e, p')
              | (Inr treasureItems, p') \<Rightarrow>
                  (Inr (TreasureResult cr ty coins treasureItems), p')))" for r
      using Inr Some unfolding ty_def entries_def by (simp add: generate_treasure_def Let_def)
    obtain rc p where rc: "roll_coins rnd entries ([], 0) = (rc, p)"
      by (cases "roll_coins rnd entries ([], 0)")
    show ?thesis
    proof (cases rc)
      case (Inl e)
      with assms rc have "agree (snd (roll_coins rnd entries ([], 0))) rnd rnd'"
        by (simp add: gt)
      from roll_coins_agree [OF this] rc Inl show ?thesis by (simp add: gt)
    next
      case coins: (Inr coins)
      have final: "snd (generate_treasure resp cr type_arg rnd)
                     = snd (treasure_items rnd p (items data) cr ty)"
        using rc coins by (simp add: gt split: prod.splits sum.splits)
      with assms have a: "agree (snd (treasure_items rnd p (items data) cr ty)) rnd rnd'"
        by simp
      from agree_le [OF a treasure_items_mono] rc
      have "agree (snd (roll_coins rnd entries ([], 0))) rnd rnd'" by simp
      from roll_coins_agree [OF this] have "roll_coins rnd' entries ([], 0) = (rc, p)"
        using rc by simp
      with rc coins treasure_items_agree [OF a] show ?thesis
        by (simp add: gt)
    qed
  qed
qed

lemma generate_weather_agree:
  assumes "agree (snd (generate_weather resp climate season rnd)) rnd rnd'"
  shows "generate_weather resp climate season rnd' = generate_weather resp climate season rnd"
  using assms
  by (cases "fetchData ''weather.json'' resp")
    (auto simp: generate_weather_def Let_def agree_def split: if_splits)

lemma generate_plot_hook_agree:
  assumes "agree (snd (generate_plot_hook resp theme level rnd)) rnd rnd'"
  shows "generate_plot_hook resp theme level rnd' = generate_plot_hook resp theme level rnd"
  using assms
  by (cases "fetchData ''plot_hooks.json'' resp")
    (auto simp: generate_plot_hook_def Let_def agree_def split: if_splits)

text \<open>
  C10. Each generator is a function of its arguments, the outcome of the fetch and the
  values \<open>Math.random()\<close> returns during the call, and of no more of these values than
  the call consumes: two runs with the same arguments and the same fetched table whose
  random sources give the same values for the draws the first run makes return the
  same outcome (the same result record, error object or failure) after the same number
  of draws.
\<close>

theorem generators_deterministic:
  "(agree (snd (generate_encounter r1 level environment difficulty rnd)) rnd rnd'
      \<longrightarrow> generate_encounter r1 level environment difficulty rnd'
          = generate_encounter r1 level environment difficulty rnd)
   \<and> (agree (snd (generate_npc_name r2 race gender rnd)) rnd rnd'
      \<longrightarrow> generate_npc_name r2 race gender rnd' = generate_npc_name r2 race gender rnd)
   \<and> (agree (snd (generate_location_name r3 ty rnd)) rnd rnd'
      \<longrightarrow> generate_location_name r3 ty rnd' = generate_location_name r3 ty rnd)
   \<and> (agree (snd (generate_personality r4 count rnd)) rnd rnd'
      \<longrightarrow> generate_personality r4 count rnd' = generate_personality r4 count rnd)
   \<and> (agree (snd (generate_treasure r5 cr treasure_type_arg rnd)) rnd rnd'
      \<longrightarrow> generate_treasure r5 cr treasure_type_arg rnd'
          = generate_treasure r5 cr treasure_type_arg rnd)
   \<and> (agree (snd (generate_weather r6 climate season rnd)) rnd rnd'
      \<longrightarrow> generate_weather r6 climate season rnd' = generate_weather r6 climate season rnd)
   \<and> (agree (snd (generate_plot_hook r7 theme hook_level rnd)) rnd rnd'
      \<longrightarrow> generate_plot_hook r7 theme hook_level rnd'
          = generate_plot_hook r7 theme hook_level rnd)"
  using generate_encounter_agree generate_npc_name_agree generate_location_name_agree
    generate_personality_agree generate_treasure_agree generate_weather_agree
    generate_plot_hook_agree
  by (intro conjI impI) blast+

theorem generators_deterministic_witness:
  "snd (generate_treasure (Response True ''OK'' (Some treasure_example)) (Num 7) (Some ''hoard'')
          (\<lambda>_. 1 / 2)) = 5
   \<and> agree 5 (\<lambda>_. 1 / 2) (\<lambda>i. if i < 5 then 1 / 2 else 0)
   \<and> generate_treasure (Response True ''OK'' (Some treasure_example)) (Num 7) (Some ''hoard'')
        (\<lambda>i. if i < 5 then 1 / 2 else 0)
       = (Inr (TreasureResult (Num 7) ''hoard'' [(''gp'', Num 80)]
               [Str ''Bag of holding'', Str ''Bag of holding'']), 5)"
proof -
  have n: "snd (generate_treasure (Response True ''OK'' (Some treasure_example)) (Num 7)
             (Some ''hoard'') (\<lambda>_. 1 / 2)) = 5"
    by (simp add: treasure_example_hoard_run)
  have a: "agree 5 (\<lambda>_. 1 / 2) (\<lambda>i. if i < 5 then 1 / 2 else 0)"
    by (simp add: agree_def)
  from generators_deterministic [where ?r5.0 = "Response True ''OK'' (Some treasure_example)"
      and cr = "Num 7" and treasure_type_arg = "Some ''hoard''" and rnd = "\<lambda>_. 1 / 2"
      and rnd' = "\<lambda>i. if i < 5 then 1 / 2 else 0"] n a
  have "generate_treasure (Response True ''OK'' (Some treasure_example)) (Num 7) (Some ''hoard'')
        (\<lambda>i. if i < 5 then 1 / 2 else 0)
      = generate_treasure (Response True ''OK'' (Some treasure_example)) (Num 7) (Some ''hoard'')
        (\<lambda>_. 1 / 2)"
    by simp
  with n a show ?thesis by (simp add: treasure_example_hoard_run)
qed

section \<open>The fetched table is not written to\<close>

lemma keeps_refl [simp]: "keeps h h"
  by (simp add: keeps_def)

lemma keeps_length: "keeps h0 h \<Longrightarrow> length h0 \<le> length h"
proof -
  assume "keeps h0 h"
  then have "length (take (length h0) h) = length h0"
    by (simp add: keeps_def)
  then show ?thesis by simp
qed

lemma keeps_append: "keeps h0 h \<Longrightarrow> keeps h0 (h @ cs)"
  using keeps_length [of h0 h] by (simp add: keeps_def)

lemma keeps_update: "keeps h0 h \<Longrightarrow> length h0 \<le> a \<Longrightarrow> keeps h0 (h[a := c])"
  by (simp add: keeps_def)

lemma keeps_trans: "keeps h0 h1 \<Longrightarrow> keeps h1 h2 \<Longrightarrow> keeps h0 h2"
proof -
  assume a: "keeps h0 h1" and b: "keeps h1 h2"
  have "take (length h0) h2 = take (length h0) (take (length h1) h2)"
    using keeps_length [OF a] by (simp add: min_def)
  with a b show ?thesis by (simp add: keeps_def)
qed

lemma keeps_alloc: "keeps h0 h \<Longrightarrow> alloc c h = (v, h') \<Longrightarrow> keeps h0 h' \<and> v = HRef (length h)"
  by (auto simp: alloc_def keeps_append)

lemma keeps_push: "keeps h0 h \<Longrightarrow> is_new h0 a \<Longrightarrow> keeps h0 (push a x h)"
  by (auto simp: push_def is_new_def keeps_update split: hval.splits option.splits cell.splits)

lemma keeps_assign: "keeps h0 h \<Longrightarrow> is_new h0 obj \<Longrightarrow> keeps h0 (assign obj k x h)"
  by (auto simp: assign_def is_new_def keeps_update split: hval.splits option.splits cell.splits)

lemma keeps_or_new_array: "keeps h0 h \<Longrightarrow> or_new_array v h = (xs, h') \<Longrightarrow> keeps h0 h'"
  by (auto simp: or_new_array_def alloc_def keeps_append split: if_splits)

lemma sound_or_new_array:
  assumes "keeps h0 h" and "\<And>xs h1. keeps h0 h1 \<Longrightarrow> sound h0 (rest xs h1)"
  shows "sound h0 (case or_new_array v h of (xs, h1) \<Rightarrow> rest xs h1)"
proof -
  obtain xs h1 where o: "or_new_array v h = (xs, h1)" by (cases "or_new_array v h")
  from keeps_or_new_array [OF assms(1) o] assms(2) show ?thesis by (simp add: o)
qed

lemma sound_new_sound: "sound_new h0 r \<Longrightarrow> sound h0 r"
  by (auto simp: sound_new_def sound_def split: sum.splits)

lemma sound_need:
  assumes "keeps h0 h" and "\<And>x. r = Inr x \<Longrightarrow> sound h0 (rest x)"
  shows "sound h0 (need r p h rest)"
  using assms by (cases r) (simp_all add: need_def sound_def)

lemma sound_new_need:
  assumes "keeps h0 h" and "\<And>x. r = Inr x \<Longrightarrow> sound_new h0 (rest x)"
  shows "sound_new h0 (need r p h rest)"
  using assms by (cases r) (simp_all add: need_def sound_new_def)

lemma new_object_alloc:
  assumes "keeps h0 h"
  shows "new_object h0 (h @ [ObjectCell props]) (HRef (length h))"
  using keeps_length [OF assms] by (simp add: new_object_def)

lemma sound_return_object:
  assumes "keeps h0 h"
  shows "sound h0 (return_object props p h)"
  using assms new_object_alloc [OF assms]
  by (simp add: return_object_def alloc_def sound_def keeps_append)

lemma sound_new_return_object:
  assumes "keeps h0 h" and "list_all (\<lambda>(k, x). is_new h0 x) props"
  shows "sound_new h0 (return_object props p h)"
  using assms new_object_alloc [OF assms(1)]
  by (simp add: return_object_def alloc_def sound_new_def keeps_append new_fields_def deref_def)

lemma sound_random_element:
  assumes "keeps h0 h" and "\<And>x. sound h0 (rest x)"
  shows "sound h0 (random_element h xs u p rest)"
  unfolding random_element_def
  by (intro sound_need assms)

lemma sound_new_random_element:
  assumes "keeps h0 h" and "\<And>x. sound_new h0 (rest x)"
  shows "sound_new h0 (random_element h xs u p rest)"
  unfolding random_element_def
  by (intro sound_new_need assms)

lemma load_keeps:
  "keeps h (snd (load x h))"
  "keeps h (snd (load_list xs h))"
  "keeps h (snd (load_props ps h))"
proof (induction x h and xs h and ps h rule: load_load_list_load_props.induct)
  case (6 xs h)
  then show ?case by (auto simp: alloc_def keeps_append split: prod.splits)
next
  case (7 ps h)
  then show ?case by (auto simp: alloc_def keeps_append split: prod.splits)
next
  case (9 x xs h)
  then show ?case by (auto split: prod.splits intro: keeps_trans)
next
  case (11 p ps h)
  then show ?case by (auto split: prod.splits intro: keeps_trans)
qed simp_all

lemma generate_encounter_from_sound:
  "sound h (generate_encounter_from h data level environment difficulty rnd)"
  unfolding generate_encounter_from_def Let_def
  by (intro sound_need sound_or_new_array keeps_refl)
    (auto intro!: sound_need sound_return_object sound_random_element)

lemma generate_npc_name_from_sound:
  "sound h (generate_npc_name_from h data race gender rnd)"
  unfolding generate_npc_name_from_def
  by (intro sound_need sound_or_new_array keeps_refl)
    (auto intro!: sound_need sound_return_object sound_random_element)

lemma generate_location_name_from_sound:
  "sound_new h (generate_location_name_from h data ty rnd)"
  unfolding generate_location_name_from_def
  by (auto intro!: sound_new_need sound_new_return_object sound_new_random_element
      simp: is_new_def)

lemma describe_weather_sound:
  "keeps h0 h \<Longrightarrow> sound h0 (describe_weather h options climate season rnd)"
  unfolding describe_weather_def
  by (auto intro!: sound_need sound_return_object sound_random_element)

lemma generate_weather_from_sound:
  "sound h (generate_weather_from h data climate season rnd)"
  unfolding generate_weather_from_def Let_def
  by (intro sound_need keeps_refl)
    (auto intro!: sound_need sound_or_new_array describe_weather_sound)

lemma generate_plot_hook_from_sound:
  "sound h (generate_plot_hook_from h data theme level rnd)"
  unfolding generate_plot_hook_from_def
  by (intro sound_need sound_or_new_array keeps_refl)
    (auto intro!: sound_need sound_return_object sound_random_element)

lemma fold_select_trait_heap_keeps:
  assumes "keeps h0 h" "is_new h0 selected"
  shows "keeps h0 (fst (fold (select_trait_heap rnd all_traits selected) js (h, p)))"
  using assms(1)
proof (induction js arbitrary: h p)
  case Nil
  then show ?case by simp
next
  case (Cons j js)
  obtain h' where step: "select_trait_heap rnd all_traits selected j (h, p) = (h', Suc p)"
    and k: "keeps h0 h'"
    using Cons.prems assms(2) by (auto simp: select_trait_heap_def Let_def keeps_push)
  from Cons.IH [OF k] show ?case by (simp add: step)
qed

lemma generate_personality_from_sound:
  "sound_new h (generate_personality_from h data count rnd)"
proof -
  have tail: "sound_new h
      (case alloc (ArrayCell xs) h of (all_traits, h1) \<Rightarrow>
         case alloc (ArrayCell []) h1 of (selected, h2) \<Rightarrow>
         case for_loop 0 (num_min c (Num (of_nat (length (elements h2 all_traits)))))
                (select_trait_heap rnd all_traits selected) (h2, 0) of
           (h3, p) \<Rightarrow> return_object [(''traits'', selected)] p h3)" for xs c
  proof -
    define all_traits where "all_traits = HRef (length h)"
    define h1 where "h1 = h @ [ArrayCell xs]"
    define selected where "selected = HRef (length h1)"
    define h2 where "h2 = h1 @ [ArrayCell []]"
    have k2: "keeps h h2" by (simp add: h2_def h1_def keeps_append)
    have new: "is_new h selected" by (simp add: is_new_def selected_def h1_def)
    obtain h3 p where loop: "for_loop 0 (num_min c (Num (of_nat (length (elements h2 all_traits)))))
                (select_trait_heap rnd all_traits selected) (h2, 0) = (h3, p)"
      by (cases "for_loop 0 (num_min c (Num (of_nat (length (elements h2 all_traits)))))
                (select_trait_heap rnd all_traits selected) (h2, 0)")
    have "keeps h (fst (for_loop 0 (num_min c (Num (of_nat (length (elements h2 all_traits)))))
                (select_trait_heap rnd all_traits selected) (h2, 0)))"
      unfolding for_loop_fold by (rule fold_select_trait_heap_keeps [OF k2 new])
    then have "keeps h h3" by (simp add: loop)
    then have "sound_new h (return_object [(''traits'', selected)] p h3)"
      using new by (intro sound_new_return_object) simp_all
    then show ?thesis
      by (simp add: alloc_def all_traits_def [symmetric] h1_def [symmetric]
          selected_def [symmetric] h2_def [symmetric] loop)
  qed
  show ?thesis
    unfolding generate_personality_from_def Let_def
    by (intro sound_new_need keeps_refl tail)
qed

lemma roll_coins_heap_keeps:
  assumes "is_new h0 coins"
  shows "keeps h0 h \<Longrightarrow> keeps h0 (fst (snd (roll_coins_heap rnd coins entries (h, p))))"
proof (induction entries arbitrary: h p)
  case Nil
  then show ?case by simp
next
  case (Cons e entries)
  obtain coinType diceData where e: "e = (coinType, diceData)" by (cases e)
  show ?case
  proof (cases "coinType \<noteq> ''items''")
    case False
    with Cons show ?thesis by (simp add: e)
  next
    case True
    show ?thesis
    proof (cases "property h diceData ''dice''")
      case (Inl err)
      with True Cons.prems show ?thesis by (simp add: e)
    next
      case (Inr dice)
      show ?thesis
      proof (cases "\<exists>s. dice = HStr s")
        case False
        with True Inr Cons.prems show ?thesis
          by (cases dice) (simp_all add: e)
      next
        case str: True
        then obtain s where s: "dice = HStr s" ..
        obtain tot p' where r: "roll_dice rnd p s = (tot, p')" by (cases "roll_dice rnd p s")
        show ?thesis
        proof (cases "property h diceData ''multiplier''")
          case (Inl err)
          with True Inr s r Cons.prems show ?thesis by (simp add: e)
        next
          case m: (Inr multiplier)
          have "keeps h0 (assign coins coinType (HNumber (num_mul tot (as_number multiplier))) h)"
            using Cons.prems assms by (rule keeps_assign)
          from Cons.IH [OF this, of p'] True Inr s r m show ?thesis by (simp add: e)
        qed
      qed
    qed
  qed
qed

lemma fold_push_item_heap_keeps:
  assumes "keeps h0 h" "is_new h0 treasureItems"
  shows "keeps h0 (fst (snd (fold (push_item_heap rnd itemPool treasureItems) js (err, h, p))))"
  using assms(1)
proof (induction js arbitrary: err h p)
  case Nil
  then show ?case by simp
next
  case (Cons j js)
  obtain err' h' p' where
    step: "push_item_heap rnd itemPool treasureItems j (err, h, p) = (err', h', p')"
    by (cases "push_item_heap rnd itemPool treasureItems j (err, h, p)")
  then have "keeps h0 h'"
    using Cons.prems assms(2)
    by (auto simp: push_item_heap_def keeps_push split: option.splits sum.splits)
  from Cons.IH [OF this] show ?case by (simp add: step)
qed

lemma treasure_items_heap_keeps:
  assumes "keeps h0 h" "is_new h0 treasureItems"
  shows "keeps h0 (fst (snd (treasure_items_heap rnd its treasureItems cr ty (h, p))))"
  using assms fold_push_item_heap_keeps [OF assms]
  by (auto simp: treasure_items_heap_def Let_def for_loop_fold split: sum.splits)

lemma generate_treasure_from_sound:
  "sound_new h (generate_treasure_from h data cr type_arg rnd)"
proof -
  have tail: "sound_new h
      (case alloc (ObjectCell []) h of (coins, h1) \<Rightarrow>
         (case (if truthy treasureData
                then roll_coins_heap rnd coins (own_entries h1 treasureData) (h1, 0)
                else (None, h1, 0)) of
            (Some e, h2, p) \<Rightarrow> (Inl e, p, h2)
          | (None, h2, p) \<Rightarrow>
              (case alloc (ArrayCell []) h2 of (treasureItems, h3) \<Rightarrow>
                 (case treasure_items_heap rnd its treasureItems cr ty (h3, p) of
                    (Some e, h4, p') \<Rightarrow> (Inl e, p', h4)
                  | (None, h4, p') \<Rightarrow>
                      return_object
                        [(''challengeRating'', HNumber cr), (''type'', HStr ty),
                         (''coins'', coins), (''items'', treasureItems)] p' h4))))"
    for treasureData its ty
  proof -
    define coins where "coins = HRef (length h)"
    define h1 where "h1 = h @ [ObjectCell []]"
    have k1: "keeps h h1" by (simp add: h1_def keeps_append)
    have c: "is_new h coins" by (simp add: is_new_def coins_def)
    obtain err h2 p where rolled:
      "(if truthy treasureData
        then roll_coins_heap rnd coins (own_entries h1 treasureData) (h1, 0)
        else (None, h1, 0)) = (err, h2, p)"
      by (cases "if truthy treasureData
        then roll_coins_heap rnd coins (own_entries h1 treasureData) (h1, 0)
        else (None, h1, 0)")
    have k2: "keeps h h2"
      using roll_coins_heap_keeps [OF c k1, of rnd "own_entries h1 treasureData" 0] rolled k1
      by (auto split: if_splits)
    define treasureItems where "treasureItems = HRef (length h2)"
    define h3 where "h3 = h2 @ [ArrayCell []]"
    have k3: "keeps h h3" using k2 by (simp add: h3_def keeps_append)
    have t: "is_new h treasureItems"
      using keeps_length [OF k2] by (simp add: is_new_def treasureItems_def)
    obtain err' h4 p' where its:
      "treasure_items_heap rnd its treasureItems cr ty (h3, p) = (err', h4, p')"
      by (cases "treasure_items_heap rnd its treasureItems cr ty (h3, p)")
    have k4: "keeps h h4"
      using treasure_items_heap_keeps [OF k3 t, of rnd its cr ty p] its by simp
    have ret: "sound_new h (return_object
                    [(''challengeRating'', HNumber cr), (''type'', HStr ty),
                     (''coins'', coins), (''items'', treasureItems)] p' h4)"
      using k4 c t by (intro sound_new_return_object) (simp_all add: is_new_def)
    show ?thesis
      unfolding alloc_def
      using k2 k4 ret rolled its
      by (simp add: coins_def [symmetric] h1_def [symmetric] treasureItems_def [symmetric]
          h3_def [symmetric] sound_new_def split: option.splits)
  qed
  show ?thesis
    unfolding generate_treasure_from_def Let_def
    by (intro sound_new_need keeps_refl tail)
qed

lemma fetchData_heap_keeps:
  "fetchData_heap filename resp h0 = (out, h1) \<Longrightarrow> keeps h0 h1"
  using load_keeps(1) [of h0]
  by (auto simp: fetchData_heap_def split: sum.splits prod.splits) (metis snd_conv)

lemma fetchData_heap_failure:
  "fetchData_heap filename resp h0 = (Inl e, h1) \<Longrightarrow> h1 = h0"
  by (auto simp: fetchData_heap_def split: sum.splits prod.splits)

text \<open>
  C9, as the spec states it, fails in its second half: the record that
  generate_plot_hook returns is new, but its field \<open>hook\<close> is the hook of the fetched
  table itself, the record at address 0, not a copy.
\<close>

theorem plot_hook_shares_table_record_counterexample:
  "fetchData_heap ''plot_hooks.json'' (Response True ''OK'' (Some plot_hooks_json)) []
     = (Inr (HRef 3),
        [ObjectCell [(''title'', HStr ''The missing heir'')], ArrayCell [HRef 0],
         ObjectCell [(''mystery'', HRef 1)], ObjectCell [(''plot_hooks'', HRef 2)]])
   \<and> generate_plot_hook_heap (Response True ''OK'' (Some plot_hooks_json)) ''mystery''
        (HNumber (Num 3)) (\<lambda>_. 0) []
     = (Inr (HRef 4), 1,
        [ObjectCell [(''title'', HStr ''The missing heir'')], ArrayCell [HRef 0],
         ObjectCell [(''mystery'', HRef 1)], ObjectCell [(''plot_hooks'', HRef 2)],
         ObjectCell [(''theme'', HStr ''mystery''), (''suggestedLevel'', HNumber (Num 3)),
                     (''hook'', HRef 0)]])
   \<and> \<not> new_fields
        [ObjectCell [(''title'', HStr ''The missing heir'')], ArrayCell [HRef 0],
         ObjectCell [(''mystery'', HRef 1)], ObjectCell [(''plot_hooks'', HRef 2)]]
        [ObjectCell [(''title'', HStr ''The missing heir'')], ArrayCell [HRef 0],
         ObjectCell [(''mystery'', HRef 1)], ObjectCell [(''plot_hooks'', HRef 2)],
         ObjectCell [(''theme'', HStr ''mystery''), (''suggestedLevel'', HNumber (Num 3)),
                     (''hook'', HRef 0)]]
        (HRef 4)"
  by code_simp

text \<open>
  C9, amended. From the heap \<open>h1\<close> that holds the fetched table, every generator leaves
  a heap whose first cells are those of \<open>h1\<close> with their contents: neither the table
  nor anything older is written to. What a generator returns is an object that it has
  allocated itself. For generate_location_name, generate_personality and
  generate_treasure no field of that object refers to a cell of \<open>h1\<close> (the arrays of
  traits and items and the object of coins are allocated by the call); the other
  generators put the value they picked from the table into the result as it is. A
  failed fetch leaves the heap as it was.
\<close>

theorem generators_keep_fetched_table:
  "(fetchData_heap ''encounters.json'' r1 h0 = (Inr data, h1)
      \<and> generate_encounter_heap r1 level environment difficulty rnd h0 = (out, n, h')
     \<longrightarrow> keeps h0 h1 \<and> keeps h1 h' \<and> (\<forall>v. out = Inr v \<longrightarrow> new_object h1 h' v))
   \<and> (fetchData_heap ''names.json'' r2 h0 = (Inr data, h1)
      \<and> generate_npc_name_heap r2 race gender rnd h0 = (out, n, h')
     \<longrightarrow> keeps h0 h1 \<and> keeps h1 h' \<and> (\<forall>v. out = Inr v \<longrightarrow> new_object h1 h' v))
   \<and> (fetchData_heap ''locations.json'' r3 h0 = (Inr data, h1)
      \<and> generate_location_name_heap r3 ty rnd h0 = (out, n, h')
     \<longrightarrow> keeps h0 h1 \<and> keeps h1 h'
         \<and> (\<forall>v. out = Inr v \<longrightarrow> new_object h1 h' v \<and> new_fields h1 h' v))
   \<and> (fetchData_heap ''traits.json'' r4 h0 = (Inr data, h1)
      \<and> generate_personality_heap r4 count rnd h0 = (out, n, h')
     \<longrightarrow> keeps h0 h1 \<and> keeps h1 h'
         \<and> (\<forall>v. out = Inr v \<longrightarrow> new_object h1 h' v \<and> new_fields h1 h' v))
   \<and> (fetchData_heap ''treasure.json'' r5 h0 = (Inr data, h1)
      \<and> generate_treasure_heap r5 cr treasure_type_arg rnd h0 = (out, n, h')
     \<longrightarrow> keeps h0 h1 \<and> keeps h1 h'
         \<and> (\<forall>v. out = Inr v \<longrightarrow> new_object h1 h' v \<and> new_fields h1 h' v))
   \<and> (fetchData_heap ''weather.json'' r6 h0 = (Inr data, h1)
      \<and> generate_weather_heap r6 climate season rnd h0 = (out, n, h')
     \<longrightarrow> keeps h0 h1 \<and> keeps h1 h' \<and> (\<forall>v. out = Inr v \<longrightarrow> new_object h1 h' v))
   \<and> (fetchData_heap ''plot_hooks.json'' r7 h0 = (Inr data, h1)
      \<and> generate_plot_hook_heap r7 theme hook_level rnd h0 = (out, n, h')
     \<longrightarrow> keeps h0 h1 \<and> keeps h1 h' \<and> (\<forall>v. out = Inr v \<longrightarrow> new_object h1 h' v))
   \<and> (fetchData_heap filename r h0 = (Inl e, h1) \<longrightarrow> h1 = h0)"
proof -
  have s: "keeps h1 h' \<and> (\<forall>v. out = Inr v \<longrightarrow> new_object h1 h' v)"
    if "sound h1 (out, n, h')" for h1 h' out n
    using that by (auto simp: sound_def)
  have sn: "keeps h1 h' \<and> (\<forall>v. out = Inr v \<longrightarrow> new_object h1 h' v \<and> new_fields h1 h' v)"
    if "sound_new h1 (out, n, h')" for h1 h' out n
    using that by (auto simp: sound_new_def)
  have g1: "keeps h0 h1 \<and> keeps h1 h' \<and> (\<forall>v. out = Inr v \<longrightarrow> new_object h1 h' v)"
    if "fetchData_heap ''encounters.json'' r1 h0 = (Inr data, h1)"
      "generate_encounter_heap r1 level environment difficulty rnd h0 = (out, n, h')"
    using that fetchData_heap_keeps [OF that(1)]
      s [of h1 out n h'] generate_encounter_from_sound [of h1 data level environment difficulty rnd]
    by (simp add: generate_encounter_heap_def)
  have g2: "keeps h0 h1 \<and> keeps h1 h' \<and> (\<forall>v. out = Inr v \<longrightarrow> new_object h1 h' v)"
    if "fetchData_heap ''names.json'' r2 h0 = (Inr data, h1)"
      "generate_npc_name_heap r2 race gender rnd h0 = (out, n, h')"
    using that fetchData_heap_keeps [OF that(1)]
      s [of h1 out n h'] generate_npc_name_from_sound [of h1 data race gender rnd]
    by (simp add: generate_npc_name_heap_def)
  have g3: "keeps h0 h1 \<and> keeps h1 h'
         \<and> (\<forall>v. out = Inr v \<longrightarrow> new_object h1 h' v \<and> new_fields h1 h' v)"
    if "fetchData_heap ''locations.json'' r3 h0 = (Inr data, h1)"
      "generate_location_name_heap r3 ty rnd h0 = (out, n, h')"
    using that fetchData_heap_keeps [OF that(1)]
      sn [of h1 out n h'] generate_location_name_from_sound [of h1 data ty rnd]
    by (simp add: generate_location_name_heap_def)
  have g4: "keeps h0 h1 \<and> keeps h1 h'
         \<and> (\<forall>v. out = Inr v \<longrightarrow> new_object h1 h' v \<and> new_fields h1 h' v)"
    if "fetchData_heap ''traits.json'' r4 h0 = (Inr data, h1)"
      "generate_personality_heap r4 count rnd h0 = (out, n, h')"
    using that fetchData_heap_keeps [OF that(1)]
      sn [of h1 out n h'] generate_personality_from_sound [of h1 data count rnd]
    by (simp add: generate_personality_heap_def)
  have g5: "keeps h0 h1 \<and> keeps h1 h'
         \<and> (\<forall>v. out = Inr v \<longrightarrow> new_object h1 h' v \<and> new_fields h1 h' v)"
    if "fetchData_heap ''treasure.json'' r5 h0 = (Inr data, h1)"
      "generate_treasure_heap r5 cr treasure_type_arg rnd h0 = (out, n, h')"
    using that fetchData_heap_keeps [OF that(1)]
      sn [of h1 out n h'] generate_treasure_from_sound [of h1 data cr treasure_type_arg rnd]
    by (simp add: generate_treasure_heap_def)
  have g6: "keeps h0 h1 \<and> keeps h1 h' \<and> (\<forall>v. out = Inr v \<longrightarrow> new_object h1 h' v)"
    if "fetchData_heap ''weather.json'' r6 h0 = (Inr data, h1)"
      "generate_weather_heap r6 climate season rnd h0 = (out, n, h')"
    using that fetchData_heap_keeps [OF that(1)]
      s [of h1 out n h'] generate_weather_from_sound [of h1 data climate season rnd]
    by (simp add: generate_weather_heap_def)
  have g7: "keeps h0 h1 \<and> keeps h1 h' \<and> (\<forall>v. out = Inr v \<longrightarrow> new_object h1 h' v)"
    if "fetchData_heap ''plot_hooks.json'' r7 h0 = (Inr data, h1)"
      "generate_plot_hook_heap r7 theme hook_level rnd h0 = (out, n, h')"
    using that fetchData_heap_keeps [OF that(1)]
      s [of h1 out n h'] generate_plot_hook_from_sound [of h1 data theme hook_level rnd]
    by (simp add: generate_plot_hook_heap_def)
  have f: "fetchData_heap filename r h0 = (Inl e, h1) \<longrightarrow> h1 = h0"
    using fetchData_heap_failure by blast
  from g1 g2 g3 g4 g5 g6 g7 f show ?thesis by blast
qed

lemma treasure_json_run:
  "generate_treasure_heap (Response True ''OK'' (Some treasure_json)) (Num 7) (Some ''hoard'')
     (\<lambda>_. 1 / 2) []
   = (Inr (HRef 18), 5,
      snd (load treasure_json [])
      @ [ObjectCell [(''gp'', HNumber (Num 80))],
         ArrayCell [HStr ''Bag of holding'', HStr ''Bag of holding''],
         ObjectCell [(''challengeRating'', HNumber (Num 7)), (''type'', HStr ''hoard''),
                     (''coins'', HRef 16), (''items'', HRef 17)]])"
  by code_simp

theorem generators_keep_fetched_table_witness:
  "fetchData_heap ''treasure.json'' (Response True ''OK'' (Some treasure_json)) []
     = (Inr (HRef 15), snd (load treasure_json []))
   \<and> generate_treasure_heap (Response True ''OK'' (Some treasure_json)) (Num 7) (Some ''hoard'')
       (\<lambda>_. 1 / 2) []
     = (Inr (HRef 18), 5,
        snd (load treasure_json [])
        @ [ObjectCell [(''gp'', HNumber (Num 80))],
           ArrayCell [HStr ''Bag of holding'', HStr ''Bag of holding''],
           ObjectCell [(''challengeRating'', HNumber (Num 7)), (''type'', HStr ''hoard''),
                       (''coins'', HRef 16), (''items'', HRef 17)]])
   \<and> length (snd (load treasure_json [])) = 16
   \<and> keeps (snd (load treasure_json []))
        (snd (load treasure_json [])
         @ [ObjectCell [(''gp'', HNumber (Num 80))],
            ArrayCell [HStr ''Bag of holding'', HStr ''Bag of holding''],
            ObjectCell [(''challengeRating'', HNumber (Num 7)), (''type'', HStr ''hoard''),
                        (''coins'', HRef 16), (''items'', HRef 17)]])"
proof -
  have f: "fetchData_heap ''treasure.json'' (Response True ''OK'' (Some treasure_json)) []
     = (Inr (HRef 15), snd (load treasure_json []))"
    by code_simp
  have l: "length (snd (load treasure_json [])) = 16"
    by code_simp
  from generators_keep_fetched_table
    [where ?r5.0 = "Response True ''OK'' (Some treasure_json)" and ?h0.0 = "[]"
      and data = "HRef 15" and ?h1.0 = "snd (load treasure_json [])" and cr = "Num 7"
      and treasure_type_arg = "Some ''hoard''" and rnd = "\<lambda>_. 1 / 2" and out = "Inr (HRef 18)"
      and n = 5
      and h' = "snd (load treasure_json [])
        @ [ObjectCell [(''gp'', HNumber (Num 80))],
           ArrayCell [HStr ''Bag of holding'', HStr ''Bag of holding''],
           ObjectCell [(''challengeRating'', HNumber (Num 7)), (''type'', HStr ''hoard''),
                       (''coins'', HRef 16), (''items'', HRef 17)]]"]
    f treasure_json_run
  have "keeps (snd (load treasure_json []))
        (snd (load treasure_json [])
         @ [ObjectCell [(''gp'', HNumber (Num 80))],
            ArrayCell [HStr ''Bag of holding'', HStr ''Bag of holding''],
            ObjectCell [(''challengeRating'', HNumber (Num 7)), (''type'', HStr ''hoard''),
                        (''coins'', HRef 16), (''items'', HRef 17)]])"
    by blast
  with f l treasure_json_run show ?thesis by simp
qed

end
